theory Spec2Isabelle
  imports Main "HOL-Library.Word"
begin

section \<open>Errors and panics\<close>

text \<open>
  A Go \<^verbatim>\<open>error\<close> value. \<open>NotFound\<close> is an API status error whose reason is NotFound
  (the one \<^verbatim>\<open>errors.IsNotFound\<close> recognises), \<open>ApiFailure\<close> any other error of a
  lister or client call, \<open>Errorf\<close> an error built with \<^verbatim>\<open>fmt.Errorf\<close>. Each carries
  its message. A nil error is \<open>None\<close> of \<open>error option\<close>.
\<close>

datatype error = NotFound string | ApiFailure string | Errorf string

fun Error :: "error \<Rightarrow> string" where
  "Error (NotFound m) = m"
| "Error (ApiFailure m) = m"
| "Error (Errorf m) = m"

fun IsNotFound :: "error \<Rightarrow> bool" where
  "IsNotFound (NotFound m) = True"
| "IsNotFound (ApiFailure m) = False"
| "IsNotFound (Errorf m) = False"

text \<open>
  A call either returns or panics (a nil pointer dereference, an index out of range,
  a failed type assertion).
\<close>

datatype 'a outcome = Returns 'a | Panics

section \<open>Data model\<close>

text \<open>
  \<^verbatim>\<open>metav1.OwnerReference\<close>. \<^verbatim>\<open>Controller\<close> and \<^verbatim>\<open>BlockOwnerDeletion\<close> are
  \<^verbatim>\<open>*bool\<close>: \<open>None\<close> is the nil pointer. The fields carry the prefix \<open>ref\<close> because
  \<open>Name\<close> and \<open>UID\<close> are also fields of the object metadata.
\<close>

record OwnerReference =
  refAPIVersion :: string
  refKind :: string
  refName :: string
  refUID :: string
  refController :: "bool option"
  refBlockOwnerDeletion :: "bool option"

text \<open>
  \<^verbatim>\<open>metav1.ObjectMeta\<close>, with the fields this program reads or writes. A Go map is a
  partial function; the nil map and the empty map are both \<open>Map.empty\<close>.
\<close>

record ObjectMeta =
  Name :: string
  Namespace :: string
  SelfLink :: string
  UID :: string
  ResourceVersion :: string
  Labels :: "string \<rightharpoonup> string"
  OwnerReferences :: "OwnerReference list"

text \<open>The zero value of \<^verbatim>\<open>metav1.ObjectMeta\<close>.\<close>

definition zeroObjectMeta :: ObjectMeta where
  "zeroObjectMeta =
     \<lparr>Name = [], Namespace = [], SelfLink = [], UID = [], ResourceVersion = [],
      Labels = Map.empty, OwnerReferences = []\<rparr>"

text \<open>
  The types of \<^verbatim>\<open>pkg/apis/samplecontroller/v1alpha1/types.go\<close>. \<^verbatim>\<open>Replicas\<close> is
  \<^verbatim>\<open>*int32\<close>: \<open>None\<close> is the nil pointer. The embedded \<^verbatim>\<open>ObjectMeta\<close>, \<^verbatim>\<open>Spec\<close> and
  \<^verbatim>\<open>Status\<close> are \<open>ijMeta\<close>, \<open>ijSpec\<close> and \<open>ijStatus\<close>, as a Deployment has fields of the
  same names.
\<close>

record InferenceJobSpec =
  DeploymentName :: string
  Replicas :: "32 word option"
  ImageToDeploy :: string

record InferenceJobStatus =
  AvailableReplicas :: "32 word"

record InferenceJob =
  ijMeta :: ObjectMeta
  ijSpec :: InferenceJobSpec
  ijStatus :: InferenceJobStatus

text \<open>
  \<^verbatim>\<open>appsv1.Deployment\<close> and the \<^verbatim>\<open>corev1\<close> types under it, with the fields this
  program reads or writes.
\<close>

record Container =
  cName :: string
  Image :: string

record PodSpec =
  Containers :: "Container list"

record PodTemplateSpec =
  tMeta :: ObjectMeta
  tSpec :: PodSpec

record LabelSelector =
  MatchLabels :: "string \<rightharpoonup> string"

record DeploymentSpec =
  dReplicas :: "32 word option"
  Selector :: "LabelSelector option"
  Template :: PodTemplateSpec

record DeploymentStatus =
  dAvailableReplicas :: "32 word"

record Deployment =
  dMeta :: ObjectMeta
  dSpec :: DeploymentSpec
  dStatus :: DeploymentStatus

text \<open>
  \<^verbatim>\<open>schema.GroupVersion\<close>. The package value \<^verbatim>\<open>samplev1alpha1.SchemeGroupVersion\<close> is
  declared in \<^verbatim>\<open>register.go\<close>; the functions that use it take it as the parameter
  \<open>gv\<close>.
\<close>

record GroupVersion =
  Group :: string
  Version :: string

definition GroupVersionString :: "GroupVersion \<Rightarrow> string" where
  "GroupVersionString gv =
     (if Group gv \<noteq> [] then Group gv @ ''/'' @ Version gv else Version gv)"

section \<open>Library functions the controller calls\<close>

text \<open>
  \<^verbatim>\<open>strings.Split(s, sep)\<close> for a separator of one byte: the substrings of \<open>s\<close> between
  the occurrences of \<open>sep\<close>, one more than there are occurrences.
\<close>

fun Split :: "string \<Rightarrow> char \<Rightarrow> string list" where
  "Split [] sep = [[]]"
| "Split (x # xs) sep =
     (if x = sep then [] # Split xs sep
      else (case Split xs sep of
              [] \<Rightarrow> [[x]]
            | w # ws \<Rightarrow> (x # w) # ws))"

text \<open>
  \<^verbatim>\<open>cache.SplitMetaNamespaceKey\<close>: one part is a name without namespace, two parts
  are namespace and name, anything else is an error.
\<close>

definition SplitMetaNamespaceKey :: "string \<Rightarrow> error + (string \<times> string)" where
  "SplitMetaNamespaceKey key =
     (case Split key (CHR ''/'') of
        [name] \<Rightarrow> Inr ([], name)
      | [namespace, name] \<Rightarrow> Inr (namespace, name)
      | _ \<Rightarrow> Inl (Errorf (''unexpected key format: '' @ key)))"

text \<open>
  \<^verbatim>\<open>metav1.GetControllerOf\<close>: the first owner reference whose \<^verbatim>\<open>Controller\<close> pointer
  is set and true.
\<close>

fun controllerRef :: "OwnerReference list \<Rightarrow> OwnerReference option" where
  "controllerRef [] = None"
| "controllerRef (r # rs) =
     (if refController r \<noteq> None \<and> refController r = Some True then Some r
      else controllerRef rs)"

definition GetControllerOf :: "ObjectMeta \<Rightarrow> OwnerReference option" where
  "GetControllerOf controllee = controllerRef (OwnerReferences controllee)"

text \<open>\<^verbatim>\<open>metav1.IsControlledBy\<close>: the controller reference carries the owner's UID.\<close>

definition IsControlledBy :: "ObjectMeta \<Rightarrow> ObjectMeta \<Rightarrow> bool" where
  "IsControlledBy obj owner =
     (case GetControllerOf obj of
        None \<Rightarrow> False
      | Some ref \<Rightarrow> refUID ref = UID owner)"

text \<open>\<^verbatim>\<open>metav1.NewControllerRef\<close>.\<close>

definition NewControllerRef :: "ObjectMeta \<Rightarrow> GroupVersion \<Rightarrow> string \<Rightarrow> OwnerReference" where
  "NewControllerRef owner gv kind =
     \<lparr>refAPIVersion = GroupVersionString gv,
      refKind = kind,
      refName = Name owner,
      refUID = UID owner,
      refController = Some True,
      refBlockOwnerDeletion = Some True\<rparr>"

section \<open>newDeployment\<close>

text \<open>
  \<^verbatim>\<open>newDeployment\<close> (controller.go, lines 407-446). The index \<^verbatim>\<open>[0]\<close> into the result
  of \<^verbatim>\<open>strings.Split\<close> panics on an empty slice.
\<close>

definition newDeployment :: "GroupVersion \<Rightarrow> InferenceJob \<Rightarrow> Deployment outcome" where
  "newDeployment gv inferenceJob =
     (let labels = [''app'' \<mapsto> ImageToDeploy (ijSpec inferenceJob),
                    ''controller'' \<mapsto> Name (ijMeta inferenceJob)]
      in case Split (ImageToDeploy (ijSpec inferenceJob)) (CHR '':'') of
           [] \<Rightarrow> Panics
         | name0 # _ \<Rightarrow>
             Returns
               \<lparr>dMeta = zeroObjectMeta
                  \<lparr>Name := DeploymentName (ijSpec inferenceJob),
                   Namespace := Namespace (ijMeta inferenceJob),
                   OwnerReferences :=
                     [NewControllerRef (ijMeta inferenceJob) gv ''InferenceJob'']\<rparr>,
                dSpec =
                  \<lparr>dReplicas = Replicas (ijSpec inferenceJob),
                   Selector = Some \<lparr>MatchLabels = labels\<rparr>,
                   Template =
                     \<lparr>tMeta = zeroObjectMeta\<lparr>Labels := labels\<rparr>,
                      tSpec =
                        \<lparr>Containers =
                           [\<lparr>cName = name0,
                             Image = ImageToDeploy (ijSpec inferenceJob)\<rparr>]\<rparr>\<rparr>\<rparr>,
                dStatus = \<lparr>dAvailableReplicas = 0\<rparr>\<rparr>)"

section \<open>The controller, its collaborators and the effects\<close>

text \<open>
  The constants of controller.go (lines 49-62) and the event types of \<^verbatim>\<open>corev1\<close>.
  \<open>MessageResourceExists\<close> is the format with its \<^verbatim>\<open>%q\<close> verb applied: the name
  between double quotes (a Kubernetes object name has no character that \<^verbatim>\<open>%q\<close>
  escapes).
\<close>

definition SuccessSynced :: string where
  "SuccessSynced = ''Synced''"

definition ErrResourceExists :: string where
  "ErrResourceExists = ''ErrResourceExists''"

definition MessageResourceExists :: "string \<Rightarrow> string" where
  "MessageResourceExists name =
     ''Resource '' @ [CHR 0x22] @ name @ [CHR 0x22] @
     '' already exists and is not managed by InferenceJob''"

definition MessageResourceSynced :: string where
  "MessageResourceSynced = ''InferenceJob synced successfully''"

definition EventTypeNormal :: string where
  "EventTypeNormal = ''Normal''"

definition EventTypeWarning :: string where
  "EventTypeWarning = ''Warning''"

text \<open>
  The \<^verbatim>\<open>Controller\<close> struct (lines 65-85), by what each collaborator answers. A lister
  takes namespace and name and answers an object of the informer cache or an error; the
  InferenceJob lister answers a pointer, an address of the heap below. A client call
  takes the namespace and the object sent and answers what the API server answers. The
  work queue and the event recorder only receive calls: these are recorded in the state.
\<close>

record Controller =
  deploymentsCreate :: "string \<Rightarrow> Deployment \<Rightarrow> error + Deployment"
  deploymentsUpdate :: "string \<Rightarrow> Deployment \<Rightarrow> error + Deployment"
  inferenceJobsUpdate :: "string \<Rightarrow> InferenceJob \<Rightarrow> error option"
  deploymentsLister :: "string \<Rightarrow> string \<Rightarrow> error + Deployment"
  inferenceJobsLister :: "string \<Rightarrow> string \<Rightarrow> error + nat"

text \<open>
  An item of the work queue (an \<^verbatim>\<open>interface{}\<close>): a string key, or a value of another
  type, given by its \<^verbatim>\<open>%#v\<close> rendering.
\<close>

datatype item = StringItem string | OtherItem string

text \<open>
  The calls the program issues to its collaborators, in the order issued: the three
  write calls of the API clients, the event recorder, \<^verbatim>\<open>utilruntime.HandleError\<close>, and
  the work queue. An event names the object it is about by its pointer. Output to the
  console and to \<^verbatim>\<open>klog\<close> is not recorded.
\<close>

datatype call =
    DeploymentsCreate string Deployment
  | DeploymentsUpdate string Deployment
  | InferenceJobsUpdate string InferenceJob
  | RecorderEvent nat string string string
  | HandleError error
  | WorkqueueAdd string
  | WorkqueueAddRateLimited string
  | WorkqueueForget item
  | WorkqueueDone item

text \<open>
  The state: the InferenceJob objects in memory, each at its address (its index), among
  them the objects of the informer cache; and the calls issued so far. Deployments are
  never written through a pointer by this program and are carried by value.
\<close>

record state =
  heap :: "InferenceJob list"
  calls :: "call list"

definition issue :: "call \<Rightarrow> state \<Rightarrow> state" where
  "issue cl s = s\<lparr>calls := calls s @ [cl]\<rparr>"

text \<open>Reading through a pointer; an address that holds no object is the nil pointer.\<close>

definition deref :: "state \<Rightarrow> nat \<Rightarrow> InferenceJob outcome" where
  "deref s p = (if p < length (heap s) then Returns (heap s ! p) else Panics)"

text \<open>
  Modelled from the spec: \<^verbatim>\<open>DeepCopy\<close> of \<^verbatim>\<open>*InferenceJob\<close> is generated code of this
  repository (\<^verbatim>\<open>zz_generated.deepcopy.go\<close>) that is not among the sources. By the spec
  (the status is written "using a local copy") and the comment at lines 326-328 it makes
  a deep copy of the original object: a new object at a new address, equal to the one
  copied. Called on a pointer that holds no object, the copy cannot be written to.
\<close>

definition DeepCopy :: "nat \<Rightarrow> state \<Rightarrow> nat outcome \<times> state" where
  "DeepCopy p s =
     (case deref s p of
        Panics \<Rightarrow> (Panics, s)
      | Returns v \<Rightarrow> (Returns (length (heap s)), s\<lparr>heap := heap s @ [v]\<rparr>))"

text \<open>The assignment \<^verbatim>\<open>q.Status.AvailableReplicas = n\<close> through the pointer \<open>q\<close>.\<close>

definition assignAvailableReplicas :: "nat \<Rightarrow> 32 word \<Rightarrow> state \<Rightarrow> unit outcome \<times> state" where
  "assignAvailableReplicas q n s =
     (if q < length (heap s)
      then (Returns (),
            s\<lparr>heap := (heap s)
               [q := (heap s ! q)\<lparr>ijStatus := (ijStatus (heap s ! q))\<lparr>AvailableReplicas := n\<rparr>\<rparr>]\<rparr>)
      else (Panics, s))"

text \<open>The calls issued between an earlier state and a later one.\<close>

definition issued :: "state \<Rightarrow> state \<Rightarrow> call list" where
  "issued s s' = drop (length (calls s)) (calls s')"

fun isDeploymentsCreate :: "call \<Rightarrow> bool" where
  "isDeploymentsCreate (DeploymentsCreate ns d) = True"
| "isDeploymentsCreate _ = False"

fun isDeploymentsUpdate :: "call \<Rightarrow> bool" where
  "isDeploymentsUpdate (DeploymentsUpdate ns d) = True"
| "isDeploymentsUpdate _ = False"

fun isInferenceJobsUpdate :: "call \<Rightarrow> bool" where
  "isInferenceJobsUpdate (InferenceJobsUpdate ns j) = True"
| "isInferenceJobsUpdate _ = False"

text \<open>A write call: a Deployment create or update, or an InferenceJob update.\<close>

definition isWrite :: "call \<Rightarrow> bool" where
  "isWrite cl = (isDeploymentsCreate cl \<or> isDeploymentsUpdate cl \<or> isInferenceJobsUpdate cl)"

fun isWorkqueue :: "call \<Rightarrow> bool" where
  "isWorkqueue (WorkqueueAdd k) = True"
| "isWorkqueue (WorkqueueAddRateLimited k) = True"
| "isWorkqueue (WorkqueueForget i) = True"
| "isWorkqueue (WorkqueueDone i) = True"
| "isWorkqueue _ = False"

section \<open>syncHandler\<close>

text \<open>
  \<^verbatim>\<open>updateInferenceJobStatus\<close> (lines 325-337). The copy is written through its own
  pointer; the namespace is read through the pointer of the cached object; the object
  sent is the one the copy's pointer holds at the call.
\<close>

definition updateInferenceJobStatus ::
    "Controller \<Rightarrow> nat \<Rightarrow> Deployment \<Rightarrow> state \<Rightarrow> error option outcome \<times> state" where
  "updateInferenceJobStatus c inferenceJob deployment s =
     (case DeepCopy inferenceJob s of
        (Panics, s1) \<Rightarrow> (Panics, s1)
      | (Returns inferenceJobCopy, s1) \<Rightarrow>
     (case assignAvailableReplicas inferenceJobCopy
             (dAvailableReplicas (dStatus deployment)) s1 of
        (Panics, s2) \<Rightarrow> (Panics, s2)
      | (Returns u, s2) \<Rightarrow>
     (case deref s2 inferenceJob of
        Panics \<Rightarrow> (Panics, s2)
      | Returns cached \<Rightarrow>
     (case deref s2 inferenceJobCopy of
        Panics \<Rightarrow> (Panics, s2)
      | Returns sent \<Rightarrow>
          (Returns (inferenceJobsUpdate c (Namespace (ijMeta cached)) sent),
           issue (InferenceJobsUpdate (Namespace (ijMeta cached)) sent) s2)))))"

text \<open>
  Lines 278-282 of \<^verbatim>\<open>syncHandler\<close>: the Deployment of the cache, or, when the lister
  answers NotFound, the answer to a create call with \<open>newDeployment\<close>.
\<close>

definition getOrCreateDeployment ::
    "GroupVersion \<Rightarrow> Controller \<Rightarrow> InferenceJob \<Rightarrow> state
      \<Rightarrow> (error + Deployment) outcome \<times> state" where
  "getOrCreateDeployment gv c inferenceJob s =
     (case deploymentsLister c (Namespace (ijMeta inferenceJob))
             (DeploymentName (ijSpec inferenceJob)) of
        Inr deployment \<Rightarrow> (Returns (Inr deployment), s)
      | Inl err \<Rightarrow>
          if IsNotFound err then
            (case newDeployment gv inferenceJob of
               Panics \<Rightarrow> (Panics, s)
             | Returns d \<Rightarrow>
                 (Returns (deploymentsCreate c (Namespace (ijMeta inferenceJob)) d),
                  issue (DeploymentsCreate (Namespace (ijMeta inferenceJob)) d) s))
          else (Returns (Inl err), s))"

text \<open>
  Lines 302-305 of \<^verbatim>\<open>syncHandler\<close>: only the InferenceJob's \<^verbatim>\<open>Replicas\<close> pointer is
  tested against nil; both pointers are then dereferenced.
\<close>

definition updateReplicas ::
    "GroupVersion \<Rightarrow> Controller \<Rightarrow> InferenceJob \<Rightarrow> Deployment \<Rightarrow> state
      \<Rightarrow> (error + Deployment) outcome \<times> state" where
  "updateReplicas gv c inferenceJob deployment s =
     (case Replicas (ijSpec inferenceJob) of
        None \<Rightarrow> (Returns (Inr deployment), s)
      | Some r \<Rightarrow>
          (case dReplicas (dSpec deployment) of
             None \<Rightarrow> (Panics, s)
           | Some dr \<Rightarrow>
               if r \<noteq> dr then
                 (case newDeployment gv inferenceJob of
                    Panics \<Rightarrow> (Panics, s)
                  | Returns d \<Rightarrow>
                      (Returns (deploymentsUpdate c (Namespace (ijMeta inferenceJob)) d),
                       issue (DeploymentsUpdate (Namespace (ijMeta inferenceJob)) d) s))
               else (Returns (Inr deployment), s)))"

text \<open>
  Lines 277-312 of \<^verbatim>\<open>syncHandler\<close>: the Deployment the status is then read from, or
  the error \<^verbatim>\<open>syncHandler\<close> returns. \<open>p\<close> is the pointer to the cached InferenceJob
  and \<open>inferenceJob\<close> the object read through it.
\<close>

definition reconcileDeployment ::
    "GroupVersion \<Rightarrow> Controller \<Rightarrow> nat \<Rightarrow> InferenceJob \<Rightarrow> state
      \<Rightarrow> (error + Deployment) outcome \<times> state" where
  "reconcileDeployment gv c p inferenceJob s =
     (case getOrCreateDeployment gv c inferenceJob s of
        (Panics, s1) \<Rightarrow> (Panics, s1)
      | (Returns (Inl err), s1) \<Rightarrow> (Returns (Inl err), s1)
      | (Returns (Inr deployment), s1) \<Rightarrow>
          if \<not> IsControlledBy (dMeta deployment) (ijMeta inferenceJob) then
            (Returns (Inl (Errorf (MessageResourceExists (Name (dMeta deployment))))),
             issue (RecorderEvent p EventTypeWarning ErrResourceExists
                      (MessageResourceExists (Name (dMeta deployment)))) s1)
          else updateReplicas gv c inferenceJob deployment s1)"

text \<open>\<^verbatim>\<open>syncHandler\<close> (lines 247-323).\<close>

definition syncHandler ::
    "GroupVersion \<Rightarrow> Controller \<Rightarrow> string \<Rightarrow> state \<Rightarrow> error option outcome \<times> state" where
  "syncHandler gv c key s =
     (case SplitMetaNamespaceKey key of
        Inl err \<Rightarrow>
          (Returns None, issue (HandleError (Errorf (''invalid resource key: '' @ key))) s)
      | Inr (namespace, name) \<Rightarrow>
     (case inferenceJobsLister c namespace name of
        Inl err \<Rightarrow>
          if IsNotFound err then
            (Returns None,
             issue (HandleError (Errorf (''inferenceJob '' @ [CHR 0x27] @ key @ [CHR 0x27] @
                                         '' in work queue no longer exists''))) s)
          else (Returns (Some err), s)
      | Inr p \<Rightarrow>
     (case deref s p of
        Panics \<Rightarrow> (Panics, s)
      | Returns inferenceJob \<Rightarrow>
          if DeploymentName (ijSpec inferenceJob) = [] then
            (Returns None,
             issue (HandleError (Errorf (key @ '': deployment name must be specified''))) s)
          else
     (case reconcileDeployment gv c p inferenceJob s of
        (Panics, s1) \<Rightarrow> (Panics, s1)
      | (Returns (Inl err), s1) \<Rightarrow> (Returns (Some err), s1)
      | (Returns (Inr deployment), s1) \<Rightarrow>
     (case updateInferenceJobStatus c p deployment s1 of
        (Panics, s2) \<Rightarrow> (Panics, s2)
      | (Returns (Some err), s2) \<Rightarrow> (Returns (Some err), s2)
      | (Returns None, s2) \<Rightarrow>
          (Returns None,
           issue (RecorderEvent p EventTypeNormal SuccessSynced MessageResourceSynced) s2))))))"

section \<open>The worker\<close>

text \<open>
  The function literal of \<^verbatim>\<open>processNextWorkItem\<close> (lines 199-234). The deferred
  \<^verbatim>\<open>Done\<close> runs last, also when \<^verbatim>\<open>syncHandler\<close> panics.
\<close>

definition processItem ::
    "GroupVersion \<Rightarrow> Controller \<Rightarrow> item \<Rightarrow> state \<Rightarrow> error option outcome \<times> state" where
  "processItem gv c obj s =
     (case (case obj of
              OtherItem v \<Rightarrow>
                (Returns None,
                 issue (HandleError (Errorf (''expected string in workqueue but got '' @ v)))
                   (issue (WorkqueueForget obj) s))
            | StringItem key \<Rightarrow>
                (case syncHandler gv c key s of
                   (Panics, s1) \<Rightarrow> (Panics, s1)
                 | (Returns (Some err), s1) \<Rightarrow>
                     (Returns (Some (Errorf (''error syncing '' @ [CHR 0x27] @ key @ [CHR 0x27] @
                                             '': '' @ Error err @ '', requeuing''))),
                      issue (WorkqueueAddRateLimited key) s1)
                 | (Returns None, s1) \<Rightarrow> (Returns None, issue (WorkqueueForget obj) s1))) of
        (r, s2) \<Rightarrow> (r, issue (WorkqueueDone obj) s2))"

text \<open>
  \<^verbatim>\<open>processNextWorkItem\<close> (lines 190-242), given what \<^verbatim>\<open>workqueue.Get\<close> answers: the
  item and whether the queue is shut down.
\<close>

definition processNextWorkItem ::
    "GroupVersion \<Rightarrow> Controller \<Rightarrow> item \<times> bool \<Rightarrow> state \<Rightarrow> bool outcome \<times> state" where
  "processNextWorkItem gv c got s =
     (case got of (obj, shutdown) \<Rightarrow>
        if shutdown then (Returns False, s)
        else
          (case processItem gv c obj s of
             (Panics, s1) \<Rightarrow> (Panics, s1)
           | (Returns (Some err), s1) \<Rightarrow> (Returns True, issue (HandleError err) s1)
           | (Returns None, s1) \<Rightarrow> (Returns True, s1)))"

section \<open>The event handlers\<close>

text \<open>
  An object delivered by an informer (an \<^verbatim>\<open>interface{}\<close>): a Deployment, a pointer to
  an InferenceJob, a tombstone \<^verbatim>\<open>cache.DeletedFinalStateUnknown\<close> with its key and
  its object, a \<^verbatim>\<open>cache.ExplicitKey\<close>, or a value of any other type.
\<close>

datatype object =
    DeploymentObj Deployment
  | InferenceJobObj nat
  | DeletedFinalStateUnknown string object
  | ExplicitKey string
  | OtherObj

text \<open>Whether the type assertion \<^verbatim>\<open>obj.(metav1.Object)\<close> succeeds.\<close>

fun isMetaObject :: "object \<Rightarrow> bool" where
  "isMetaObject (DeploymentObj d) = True"
| "isMetaObject (InferenceJobObj p) = True"
| "isMetaObject _ = False"

text \<open>The metadata the accessors of \<^verbatim>\<open>metav1.Object\<close> read.\<close>

fun GetObjectMeta :: "state \<Rightarrow> object \<Rightarrow> ObjectMeta outcome" where
  "GetObjectMeta s (DeploymentObj d) = Returns (dMeta d)"
| "GetObjectMeta s (InferenceJobObj p) =
     (case deref s p of Panics \<Rightarrow> Panics | Returns j \<Rightarrow> Returns (ijMeta j))"
| "GetObjectMeta s _ = Panics"

text \<open>\<^verbatim>\<open>cache.MetaNamespaceKeyFunc\<close>.\<close>

definition MetaNamespaceKeyFunc :: "state \<Rightarrow> object \<Rightarrow> (error + string) outcome" where
  "MetaNamespaceKeyFunc s obj =
     (case obj of
        ExplicitKey key \<Rightarrow> Returns (Inr key)
      | _ \<Rightarrow>
          if isMetaObject obj then
            (case GetObjectMeta s obj of
               Panics \<Rightarrow> Panics
             | Returns m \<Rightarrow>
                 if length (Namespace m) > 0
                 then Returns (Inr (Namespace m @ ''/'' @ Name m))
                 else Returns (Inr (Name m)))
          else Returns (Inl (Errorf (''object has no meta: '' @
                                     ''object does not implement the Object interfaces''))))"

text \<open>\<^verbatim>\<open>enqueueInferenceJob\<close> (lines 342-354).\<close>

definition enqueueInferenceJob :: "object \<Rightarrow> state \<Rightarrow> unit outcome \<times> state" where
  "enqueueInferenceJob obj s =
     (case MetaNamespaceKeyFunc s obj of
        Panics \<Rightarrow> (Panics, s)
      | Returns (Inl err) \<Rightarrow> (Returns (), issue (HandleError err) s)
      | Returns (Inr key) \<Rightarrow> (Returns (), issue (WorkqueueAdd key) s))"

text \<open>
  Lines 381-401 of \<^verbatim>\<open>handleObject\<close>, for an \<open>object\<close> that passed the type
  assertion.
\<close>

definition resolveOwner :: "Controller \<Rightarrow> object \<Rightarrow> state \<Rightarrow> unit outcome \<times> state" where
  "resolveOwner c object s =
     (case GetObjectMeta s object of
        Panics \<Rightarrow> (Panics, s)
      | Returns m \<Rightarrow>
          (case GetControllerOf m of
             None \<Rightarrow> (Returns (), s)
           | Some ownerRef \<Rightarrow>
               if refKind ownerRef \<noteq> ''InferenceJob'' then (Returns (), s)
               else
                 (case inferenceJobsLister c (Namespace m) (refName ownerRef) of
                    Inl err \<Rightarrow> (Returns (), s)
                  | Inr inferenceJob \<Rightarrow> enqueueInferenceJob (InferenceJobObj inferenceJob) s)))"

text \<open>\<^verbatim>\<open>handleObject\<close> (lines 361-402).\<close>

definition handleObject :: "Controller \<Rightarrow> object \<Rightarrow> state \<Rightarrow> unit outcome \<times> state" where
  "handleObject c obj s =
     (if isMetaObject obj then resolveOwner c obj s
      else
        (case obj of
           DeletedFinalStateUnknown k tombstoneObj \<Rightarrow>
             if isMetaObject tombstoneObj then resolveOwner c tombstoneObj s
             else (Returns (),
                   issue (HandleError (Errorf ''error decoding object tombstone, invalid type'')) s)
         | _ \<Rightarrow>
             (Returns (), issue (HandleError (Errorf ''error decoding object, invalid type'')) s)))"

text \<open>
  The \<^verbatim>\<open>UpdateFunc\<close> registered for Deployments in \<^verbatim>\<open>NewController\<close> (lines 131-140).
  A type assertion to \<^verbatim>\<open>*appsv1.Deployment\<close> panics on any other object.
\<close>

definition deploymentUpdateFunc ::
    "Controller \<Rightarrow> object \<Rightarrow> object \<Rightarrow> state \<Rightarrow> unit outcome \<times> state" where
  "deploymentUpdateFunc c old new s =
     (case new of
        DeploymentObj newDepl \<Rightarrow>
          (case old of
             DeploymentObj oldDepl \<Rightarrow>
               if ResourceVersion (dMeta newDepl) = ResourceVersion (dMeta oldDepl)
               then (Returns (), s)
               else handleObject c new s
           | _ \<Rightarrow> (Panics, s))
      | _ \<Rightarrow> (Panics, s))"

section \<open>A concrete cluster\<close>

text \<open>
  The inputs at which the theorems below are instantiated: an InferenceJob \<open>job\<close> in the
  namespace \<open>default\<close>, at address 0, that asks for a Deployment of a given name with
  given replicas; a Deployment \<open>x\<close> with given owner references and replicas; and a
  controller whose listers know \<open>default/job\<close> and answer a given result for the
  Deployment \<open>default/x\<close>, and whose clients answer every write call with the object
  sent.
\<close>

definition exampleGroupVersion :: GroupVersion where
  "exampleGroupVersion = \<lparr>Group = ''samplecontroller.k8s.io'', Version = ''v1alpha1''\<rparr>"

definition exampleJob :: "string \<Rightarrow> 32 word option \<Rightarrow> InferenceJob" where
  "exampleJob deploymentName replicas =
     \<lparr>ijMeta = zeroObjectMeta\<lparr>Name := ''job'', Namespace := ''default'', UID := ''uid-1''\<rparr>,
      ijSpec = \<lparr>DeploymentName = deploymentName, Replicas = replicas,
                ImageToDeploy = ''nginx:latest''\<rparr>,
      ijStatus = \<lparr>AvailableReplicas = 0\<rparr>\<rparr>"

definition exampleOwner :: "string \<Rightarrow> OwnerReference list" where
  "exampleOwner uid =
     [\<lparr>refAPIVersion = ''samplecontroller.k8s.io/v1alpha1'', refKind = ''InferenceJob'',
       refName = ''job'', refUID = uid, refController = Some True,
       refBlockOwnerDeletion = Some True\<rparr>]"

definition exampleOwnerOf :: "string \<Rightarrow> string \<Rightarrow> OwnerReference list" where
  "exampleOwnerOf kind name =
     [\<lparr>refAPIVersion = ''samplecontroller.k8s.io/v1alpha1'', refKind = kind,
       refName = name, refUID = ''uid-1'', refController = Some True,
       refBlockOwnerDeletion = Some True\<rparr>]"

definition exampleDeployment :: "OwnerReference list \<Rightarrow> 32 word option \<Rightarrow> Deployment" where
  "exampleDeployment refs replicas =
     \<lparr>dMeta = zeroObjectMeta\<lparr>Name := ''x'', Namespace := ''default'',
                              ResourceVersion := ''7'', OwnerReferences := refs\<rparr>,
      dSpec = \<lparr>dReplicas = replicas, Selector = None,
               Template = \<lparr>tMeta = zeroObjectMeta, tSpec = \<lparr>Containers = []\<rparr>\<rparr>\<rparr>,
      dStatus = \<lparr>dAvailableReplicas = 2\<rparr>\<rparr>"

definition exampleDeploymentVersion :: "string \<Rightarrow> Deployment" where
  "exampleDeploymentVersion rv =
     (exampleDeployment (exampleOwner ''uid-1'') (Some 3))
       \<lparr>dMeta := (dMeta (exampleDeployment (exampleOwner ''uid-1'') (Some 3)))
                    \<lparr>ResourceVersion := rv\<rparr>\<rparr>"

definition exampleController :: "error + Deployment \<Rightarrow> Controller" where
  "exampleController answer =
     \<lparr>deploymentsCreate = (\<lambda>ns d. Inr d),
      deploymentsUpdate = (\<lambda>ns d. Inr d),
      inferenceJobsUpdate = (\<lambda>ns j. None),
      deploymentsLister =
        (\<lambda>ns n. if ns = ''default'' \<and> n = ''x'' then answer else Inl (NotFound ''not found'')),
      inferenceJobsLister =
        (\<lambda>ns n. if ns = ''default'' \<and> n = ''job'' then Inr 0 else Inl (NotFound ''not found''))\<rparr>"

definition exampleState :: "InferenceJob \<Rightarrow> state" where
  "exampleState j = \<lparr>heap = [j], calls = []\<rparr>"

section \<open>Properties of the library functions\<close>

lemma Split_not_Nil: "Split s sep \<noteq> []"
  by (induction s) (auto split: list.splits)

lemma hd_Split: "hd (Split s sep) = takeWhile (\<lambda>ch. ch \<noteq> sep) s"
  by (induction s) (auto split: list.splits simp: Split_not_Nil)

lemma Split_Cons: "\<exists>ws. Split s sep = takeWhile (\<lambda>ch. ch \<noteq> sep) s # ws"
proof -
  obtain w ws where "Split s sep = w # ws"
    using Split_not_Nil [of s sep] by (cases "Split s sep") auto
  moreover from this have "w = takeWhile (\<lambda>ch. ch \<noteq> sep) s"
    using hd_Split [of s sep] by simp
  ultimately show ?thesis by blast
qed

lemma not_IsControlledBy_iff:
  "(\<not> IsControlledBy obj owner) =
     (GetControllerOf obj = None \<or>
      (\<exists>ref. GetControllerOf obj = Some ref \<and> refUID ref \<noteq> UID owner))"
  by (simp add: IsControlledBy_def split: option.splits)

lemma newDeployment_Returns:
  "\<exists>d. newDeployment gv ij = Returns d
     \<and> dReplicas (dSpec d) = Replicas (ijSpec ij)
     \<and> Name (dMeta d) = DeploymentName (ijSpec ij)
     \<and> Namespace (dMeta d) = Namespace (ijMeta ij)
     \<and> OwnerReferences (dMeta d) = [NewControllerRef (ijMeta ij) gv ''InferenceJob'']"
proof -
  obtain w ws where "Split (ImageToDeploy (ijSpec ij)) (CHR '':'') = w # ws"
    using Split_Cons by blast
  then show ?thesis
    by (simp add: newDeployment_def zeroObjectMeta_def Let_def)
qed

section \<open>The state and the calls issued\<close>

lemma calls_issue [simp]: "calls (issue cl s) = calls s @ [cl]"
  by (simp add: issue_def)

lemma heap_issue [simp]: "heap (issue cl s) = heap s"
  by (simp add: issue_def)

lemma issued_same [simp]: "issued s s = []"
  by (simp add: issued_def)

lemma issued_append: "calls s' = calls s @ xs \<Longrightarrow> issued s s' = xs"
  by (simp add: issued_def)

lemma issued_issue [simp]: "issued s (issue cl s) = [cl]"
  by (simp add: issued_def)

lemma deref_issue [simp]: "deref (issue cl s) p = deref s p"
  by (simp add: deref_def)

lemma deref_Returns_iff: "deref s p = Returns v \<longleftrightarrow> p < length (heap s) \<and> heap s ! p = v"
  by (simp add: deref_def)

section \<open>The stages of syncHandler\<close>

text \<open>
  What \<open>updateInferenceJobStatus\<close> does when the pointer it is given holds an object:
  the copy is a new object at the end of the heap, and the object sent is the cached one
  with \<open>AvailableReplicas\<close> replaced.
\<close>

lemma updateInferenceJobStatus_result:
  assumes "deref s p = Returns ij"
  shows "updateInferenceJobStatus c p deployment s =
     (Returns (inferenceJobsUpdate c (Namespace (ijMeta ij))
                 (ij\<lparr>ijStatus := (ijStatus ij)\<lparr>AvailableReplicas := dAvailableReplicas (dStatus deployment)\<rparr>\<rparr>)),
      issue (InferenceJobsUpdate (Namespace (ijMeta ij))
                 (ij\<lparr>ijStatus := (ijStatus ij)\<lparr>AvailableReplicas := dAvailableReplicas (dStatus deployment)\<rparr>\<rparr>))
        (s\<lparr>heap := heap s @
              [ij\<lparr>ijStatus := (ijStatus ij)\<lparr>AvailableReplicas := dAvailableReplicas (dStatus deployment)\<rparr>\<rparr>]\<rparr>))"
  using assms
  by (auto simp add: updateInferenceJobStatus_def DeepCopy_def assignAvailableReplicas_def
      deref_def nth_append split: if_splits)

text \<open>Each stage only appends calls, and only those of its own kind.\<close>

lemma updateInferenceJobStatus_frame:
  assumes "updateInferenceJobStatus c p deployment s = (r, s1)"
  shows "\<exists>ys. calls s1 = calls s @ ys
           \<and> filter isDeploymentsCreate ys = [] \<and> filter isDeploymentsUpdate ys = []"
  using assms
  by (auto simp add: updateInferenceJobStatus_def DeepCopy_def assignAvailableReplicas_def
      deref_def split: if_splits)

lemma updateReplicas_frame:
  assumes "updateReplicas gv c ij d s = (r, s1)"
  shows "heap s1 = heap s \<and> (\<exists>xs. calls s1 = calls s @ xs
           \<and> filter isDeploymentsCreate xs = [] \<and> filter isInferenceJobsUpdate xs = []
           \<and> length (filter isDeploymentsUpdate xs) \<le> 1)"
  using assms newDeployment_Returns [of gv ij]
  by (auto simp add: updateReplicas_def split: option.splits if_splits)

lemma getOrCreateDeployment_frame:
  assumes "getOrCreateDeployment gv c ij s = (r, s1)"
  shows "heap s1 = heap s \<and> (\<exists>xs. calls s1 = calls s @ xs
           \<and> filter isDeploymentsUpdate xs = [] \<and> filter isInferenceJobsUpdate xs = [])"
  using assms newDeployment_Returns [of gv ij]
  by (auto simp add: getOrCreateDeployment_def split: sum.splits if_splits)

lemma reconcileDeployment_frame:
  assumes "reconcileDeployment gv c p ij s = (r, s1)"
  shows "heap s1 = heap s \<and> (\<exists>xs. calls s1 = calls s @ xs
           \<and> filter isInferenceJobsUpdate xs = [])"
proof -
  obtain r0 s0 where g: "getOrCreateDeployment gv c ij s = (r0, s0)"
    by (cases "getOrCreateDeployment gv c ij s")
  from getOrCreateDeployment_frame [OF g]
  obtain xs where xs: "heap s0 = heap s" "calls s0 = calls s @ xs"
      "filter isInferenceJobsUpdate xs = []"
    by blast
  show ?thesis
  proof (cases r0)
    case Panics
    with assms g xs show ?thesis by (simp add: reconcileDeployment_def)
  next
    case (Returns e)
    show ?thesis
    proof (cases e)
      case (Inl err)
      with Returns assms g xs show ?thesis by (simp add: reconcileDeployment_def)
    next
      case (Inr deployment)
      show ?thesis
      proof (cases "IsControlledBy (dMeta deployment) (ijMeta ij)")
        case False
        with Inr Returns assms g xs show ?thesis
          by (auto simp add: reconcileDeployment_def)
      next
        case True
        with Inr Returns assms g have u: "updateReplicas gv c ij deployment s0 = (r, s1)"
          by (simp add: reconcileDeployment_def)
        from updateReplicas_frame [OF u] xs show ?thesis by auto
      qed
    qed
  qed
qed

lemma syncHandler_after_reconcile:
  assumes "SplitMetaNamespaceKey key = Inr (namespace, name)"
    and "inferenceJobsLister c namespace name = Inr p"
    and "deref s p = Returns ij"
    and "DeploymentName (ijSpec ij) \<noteq> []"
    and "reconcileDeployment gv c p ij s = (r, s1)"
  shows "\<exists>ys. calls (snd (syncHandler gv c key s)) = calls s1 @ ys
           \<and> filter isDeploymentsCreate ys = [] \<and> filter isDeploymentsUpdate ys = []"
proof (cases r)
  case Panics
  with assms show ?thesis by (simp add: syncHandler_def)
next
  case (Returns e)
  show ?thesis
  proof (cases e)
    case (Inl err)
    with Returns assms show ?thesis by (simp add: syncHandler_def)
  next
    case (Inr deployment)
    obtain r2 s2 where u: "updateInferenceJobStatus c p deployment s1 = (r2, s2)"
      by (cases "updateInferenceJobStatus c p deployment s1")
    from updateInferenceJobStatus_frame [OF u]
    obtain ys where ys: "calls s2 = calls s1 @ ys" "filter isDeploymentsCreate ys = []"
        "filter isDeploymentsUpdate ys = []"
      by blast
    show ?thesis
    proof (cases r2)
      case Panics
      with Inr Returns assms u ys show ?thesis by (simp add: syncHandler_def)
    next
      case (Returns e2)
      with Inr \<open>r = Returns e\<close> assms u ys show ?thesis
        by (cases e2) (simp_all add: syncHandler_def)
    qed
  qed
qed

text \<open>The result of the reconciliation on the three paths that reach a Deployment.\<close>

lemma reconcileDeployment_converged:
  assumes "deploymentsLister c (Namespace (ijMeta ij)) (DeploymentName (ijSpec ij)) = Inr d"
    and "IsControlledBy (dMeta d) (ijMeta ij)"
    and "Replicas (ijSpec ij) = None \<or> Replicas (ijSpec ij) = dReplicas (dSpec d)"
  shows "reconcileDeployment gv c p ij s = (Returns (Inr d), s)"
  using assms
  by (auto simp add: reconcileDeployment_def getOrCreateDeployment_def updateReplicas_def
      split: option.splits)

lemma reconcileDeployment_update:
  assumes "deploymentsLister c (Namespace (ijMeta ij)) (DeploymentName (ijSpec ij)) = Inr d"
    and "IsControlledBy (dMeta d) (ijMeta ij)"
    and "Replicas (ijSpec ij) = Some R"
    and "dReplicas (dSpec d) = Some r"
    and "r \<noteq> R"
    and "newDeployment gv ij = Returns d'"
  shows "reconcileDeployment gv c p ij s =
           (Returns (deploymentsUpdate c (Namespace (ijMeta ij)) d'),
            issue (DeploymentsUpdate (Namespace (ijMeta ij)) d') s)"
  using assms
  by (auto simp add: reconcileDeployment_def getOrCreateDeployment_def updateReplicas_def)

lemma reconcileDeployment_create:
  assumes "deploymentsLister c (Namespace (ijMeta ij)) (DeploymentName (ijSpec ij)) = Inl err"
    and "IsNotFound err"
    and "newDeployment gv ij = Returns d"
    and "reconcileDeployment gv c p ij s = (r, s1)"
  shows "\<exists>xs. calls s1 = calls s @ DeploymentsCreate (Namespace (ijMeta ij)) d # xs
           \<and> filter isDeploymentsCreate xs = []"
proof -
  let ?s0 = "issue (DeploymentsCreate (Namespace (ijMeta ij)) d) s"
  have g: "getOrCreateDeployment gv c ij s =
      (Returns (deploymentsCreate c (Namespace (ijMeta ij)) d), ?s0)"
    using assms(1-3) by (simp add: getOrCreateDeployment_def)
  show ?thesis
  proof (cases "deploymentsCreate c (Namespace (ijMeta ij)) d")
    case (Inl e)
    with g assms(4) show ?thesis by (auto simp add: reconcileDeployment_def)
  next
    case (Inr deployment)
    show ?thesis
    proof (cases "IsControlledBy (dMeta deployment) (ijMeta ij)")
      case False
      with Inr g assms(4) show ?thesis by (auto simp add: reconcileDeployment_def)
    next
      case True
      with Inr g assms(4) have u: "updateReplicas gv c ij deployment ?s0 = (r, s1)"
        by (simp add: reconcileDeployment_def)
      from updateReplicas_frame [OF u] show ?thesis by auto
    qed
  qed
qed

lemma syncHandler_converged:
  assumes "SplitMetaNamespaceKey key = Inr (namespace, name)"
    and "inferenceJobsLister c namespace name = Inr p"
    and "deref s p = Returns ij"
    and "DeploymentName (ijSpec ij) \<noteq> []"
    and "deploymentsLister c (Namespace (ijMeta ij)) (DeploymentName (ijSpec ij)) = Inr d"
    and "IsControlledBy (dMeta d) (ijMeta ij)"
    and "Replicas (ijSpec ij) = None \<or> Replicas (ijSpec ij) = dReplicas (dSpec d)"
    and "sent = ij\<lparr>ijStatus := (ijStatus ij)
                     \<lparr>AvailableReplicas := dAvailableReplicas (dStatus d)\<rparr>\<rparr>"
  shows "heap (snd (syncHandler gv c key s)) = heap s @ [sent]
       \<and> filter isWrite (issued s (snd (syncHandler gv c key s))) =
           [InferenceJobsUpdate (Namespace (ijMeta ij)) sent]
       \<and> filter isDeploymentsCreate (issued s (snd (syncHandler gv c key s))) = []
       \<and> filter isDeploymentsUpdate (issued s (snd (syncHandler gv c key s))) = []"
proof -
  note rec = reconcileDeployment_converged [OF assms(5-7), where p = p and s = s and gv = gv]
  have run: "syncHandler gv c key s =
      (case inferenceJobsUpdate c (Namespace (ijMeta ij)) sent of
         None \<Rightarrow> (Returns None,
                   issue (RecorderEvent p EventTypeNormal SuccessSynced MessageResourceSynced)
                     (issue (InferenceJobsUpdate (Namespace (ijMeta ij)) sent)
                        (s\<lparr>heap := heap s @ [sent]\<rparr>)))
       | Some err \<Rightarrow> (Returns (Some err),
                      issue (InferenceJobsUpdate (Namespace (ijMeta ij)) sent)
                        (s\<lparr>heap := heap s @ [sent]\<rparr>)))"
    using assms(1-4,8) rec
    by (simp add: syncHandler_def updateInferenceJobStatus_result [OF assms(3)]
        split: option.splits)
  show ?thesis
    by (cases "inferenceJobsUpdate c (Namespace (ijMeta ij)) sent")
      (simp_all add: run issued_def isWrite_def)
qed

lemma second_sync_writes:
  assumes "SplitMetaNamespaceKey key = Inr (namespace, name)"
    and "inferenceJobsLister c namespace name = Inr p"
    and "deref s p = Returns ij"
    and "DeploymentName (ijSpec ij) \<noteq> []"
    and "deploymentsLister c (Namespace (ijMeta ij)) (DeploymentName (ijSpec ij)) = Inr d"
    and "IsControlledBy (dMeta d) (ijMeta ij)"
    and "Replicas (ijSpec ij) = None \<or> Replicas (ijSpec ij) = dReplicas (dSpec d)"
    and "s1 = snd (syncHandler gv c key s)"
    and "s2 = snd (syncHandler gv c key s1)"
  shows "filter isWrite (issued s1 s2) =
           [InferenceJobsUpdate (Namespace (ijMeta ij))
              (ij\<lparr>ijStatus := (ijStatus ij)
                     \<lparr>AvailableReplicas := dAvailableReplicas (dStatus d)\<rparr>\<rparr>)]
       \<and> filter isDeploymentsCreate (issued s1 s2) = []
       \<and> filter isDeploymentsUpdate (issued s1 s2) = []"
proof -
  let ?sent = "ij\<lparr>ijStatus := (ijStatus ij)
                     \<lparr>AvailableReplicas := dAvailableReplicas (dStatus d)\<rparr>\<rparr>"
  from syncHandler_converged [OF assms(1-7) refl, of gv] assms(8)
  have h1: "heap s1 = heap s @ [?sent]" by simp
  with assms(3) have d1: "deref s1 p = Returns ij"
    by (simp add: deref_Returns_iff nth_append)
  from syncHandler_converged [OF assms(1,2) d1 assms(4-7) refl, of gv] assms(9)
  show ?thesis by simp
qed



section \<open>The concrete cluster\<close>

lemmas example_defs =
  exampleGroupVersion_def exampleJob_def exampleOwner_def exampleDeployment_def
  exampleController_def exampleState_def zeroObjectMeta_def

lemma example_key: "SplitMetaNamespaceKey ''default/job'' = Inr (''default'', ''job'')"
  by (simp add: SplitMetaNamespaceKey_def)

lemma example_lister:
  "inferenceJobsLister (exampleController answer) ''default'' ''job'' = Inr 0"
  by (simp add: exampleController_def)

lemma example_deref: "deref (exampleState j) 0 = Returns j"
  by (simp add: deref_def exampleState_def)

lemma example_deploymentsLister:
  "deploymentsLister (exampleController answer) (Namespace (ijMeta (exampleJob ''x'' r)))
     (DeploymentName (ijSpec (exampleJob ''x'' r))) = answer"
  by (simp add: exampleController_def exampleJob_def zeroObjectMeta_def)

lemma example_name: "DeploymentName (ijSpec (exampleJob ''x'' r)) \<noteq> []"
  by (simp add: exampleJob_def)

lemma example_controlled:
  "IsControlledBy (dMeta (exampleDeployment (exampleOwner ''uid-1'') r')) (ijMeta (exampleJob n r))"
  by (simp add: IsControlledBy_def GetControllerOf_def example_defs)

lemma example_not_controlled:
  "\<not> IsControlledBy (dMeta (exampleDeployment [] r')) (ijMeta (exampleJob n r))"
  by (simp add: IsControlledBy_def GetControllerOf_def example_defs)

lemma example_converged:
  "Replicas (ijSpec (exampleJob n (Some 3))) = None
   \<or> Replicas (ijSpec (exampleJob n (Some 3))) =
      dReplicas (dSpec (exampleDeployment refs (Some 3)))"
  by (simp add: exampleJob_def exampleDeployment_def)

section \<open>The shape of the Deployment\<close>

text \<open>
  C8. For every InferenceJob, \<open>newDeployment\<close> returns (it does not panic) a Deployment
  whose replicas are the InferenceJob's \<open>Replicas\<close> pointer unchanged (nil stays nil),
  whose single container is named by the part of \<open>ImageToDeploy\<close> before its first
  \<open>:\<close> and runs \<open>ImageToDeploy\<close>, and whose selector and pod template labels are exactly
  \<open>app\<close> mapped to \<open>ImageToDeploy\<close> and \<open>controller\<close> mapped to the InferenceJob's name.
\<close>

theorem newDeployment_shape:
  "\<exists>d. newDeployment gv ij = Returns d
     \<and> dReplicas (dSpec d) = Replicas (ijSpec ij)
     \<and> Containers (tSpec (Template (dSpec d))) =
         [\<lparr>cName = takeWhile (\<lambda>ch. ch \<noteq> CHR '':'') (ImageToDeploy (ijSpec ij)),
           Image = ImageToDeploy (ijSpec ij)\<rparr>]
     \<and> Selector (dSpec d) =
         Some \<lparr>MatchLabels = [''app'' \<mapsto> ImageToDeploy (ijSpec ij),
                              ''controller'' \<mapsto> Name (ijMeta ij)]\<rparr>
     \<and> Labels (tMeta (Template (dSpec d))) =
         [''app'' \<mapsto> ImageToDeploy (ijSpec ij), ''controller'' \<mapsto> Name (ijMeta ij)]"
proof -
  obtain ws where "Split (ImageToDeploy (ijSpec ij)) (CHR '':'') =
      takeWhile (\<lambda>ch. ch \<noteq> CHR '':'') (ImageToDeploy (ijSpec ij)) # ws"
    using Split_Cons by blast
  then show ?thesis
    by (simp add: newDeployment_def zeroObjectMeta_def Let_def)
qed

section \<open>Idempotence\<close>

text \<open>
  C1, as stated, fails. In the concrete cluster the InferenceJob at address 0 asks for
  the Deployment \<open>x\<close> with 3 replicas, the cache holds \<open>x\<close> controlled by it with 3
  replicas, and every client call succeeds: the state is converged. The second of two
  successive invocations of \<open>syncHandler\<close> still issues a write call.
\<close>

theorem syncHandler_idempotence_counterexample:
  "deref (exampleState (exampleJob ''x'' (Some 3))) 0 = Returns (exampleJob ''x'' (Some 3))
 \<and> deploymentsLister
       (exampleController (Inr (exampleDeployment (exampleOwner ''uid-1'') (Some 3))))
       ''default'' ''x'' = Inr (exampleDeployment (exampleOwner ''uid-1'') (Some 3))
 \<and> IsControlledBy (dMeta (exampleDeployment (exampleOwner ''uid-1'') (Some 3)))
       (ijMeta (exampleJob ''x'' (Some 3)))
 \<and> Replicas (ijSpec (exampleJob ''x'' (Some 3))) =
       dReplicas (dSpec (exampleDeployment (exampleOwner ''uid-1'') (Some 3)))
 \<and> filter isWrite
      (issued
        (snd (syncHandler exampleGroupVersion
                (exampleController (Inr (exampleDeployment (exampleOwner ''uid-1'') (Some 3))))
                ''default/job'' (exampleState (exampleJob ''x'' (Some 3)))))
        (snd (syncHandler exampleGroupVersion
                (exampleController (Inr (exampleDeployment (exampleOwner ''uid-1'') (Some 3))))
                ''default/job''
                (snd (syncHandler exampleGroupVersion
                        (exampleController
                           (Inr (exampleDeployment (exampleOwner ''uid-1'') (Some 3))))
                        ''default/job'' (exampleState (exampleJob ''x'' (Some 3))))))))
    \<noteq> []"
proof -
  let ?d = "exampleDeployment (exampleOwner ''uid-1'') (Some 3)"
  let ?j = "exampleJob ''x'' (Some 3)"
  note h1 = example_key
  note h2 = example_lister [where answer = "Inr ?d"]
  note h3 = example_deref [where j = ?j]
  note h4 = example_name [where r = "Some 3"]
  note h5 = example_deploymentsLister [where answer = "Inr ?d" and r = "Some 3"]
  note h6 = example_controlled [where r' = "Some 3" and n = "''x''" and r = "Some 3"]
  note h7 = example_converged [where n = "''x''" and refs = "exampleOwner ''uid-1''"]
  have n: "Namespace (ijMeta ?j) = ''default''" "DeploymentName (ijSpec ?j) = ''x''"
      "Replicas (ijSpec ?j) = dReplicas (dSpec ?d)"
    by (simp_all add: exampleDeployment_def exampleJob_def zeroObjectMeta_def)
  from second_sync_writes [OF h1 h2 h3 h4 h5 h6 h7 refl refl, where gv = exampleGroupVersion]
    h3 h5 h6 n
  show ?thesis by simp
qed

text \<open>
  C1, amended. On a converged state (the InferenceJob's \<open>DeploymentName\<close> names a
  Deployment of the cache that it controls, and its \<open>Replicas\<close> is nil or equals the
  Deployment's), the second of two successive invocations of \<open>syncHandler\<close> issues no
  Deployment create call and no Deployment update call; its only write call is the
  InferenceJob update that writes the status back, sent again with the Deployment's
  \<open>AvailableReplicas\<close>.
\<close>

theorem syncHandler_converged_twice:
  assumes "SplitMetaNamespaceKey key = Inr (namespace, name)"
    and "inferenceJobsLister c namespace name = Inr p"
    and "deref s p = Returns ij"
    and "DeploymentName (ijSpec ij) \<noteq> []"
    and "deploymentsLister c (Namespace (ijMeta ij)) (DeploymentName (ijSpec ij)) = Inr d"
    and "IsControlledBy (dMeta d) (ijMeta ij)"
    and "Replicas (ijSpec ij) = None \<or> Replicas (ijSpec ij) = dReplicas (dSpec d)"
    and "s1 = snd (syncHandler gv c key s)"
    and "s2 = snd (syncHandler gv c key s1)"
  shows "filter isDeploymentsCreate (issued s1 s2) = []
       \<and> filter isDeploymentsUpdate (issued s1 s2) = []
       \<and> filter isWrite (issued s1 s2) =
           [InferenceJobsUpdate (Namespace (ijMeta ij))
              (ij\<lparr>ijStatus := (ijStatus ij)
                     \<lparr>AvailableReplicas := dAvailableReplicas (dStatus d)\<rparr>\<rparr>)]"
  using second_sync_writes [OF assms] by simp

text \<open>The theorem of C1 at the concrete converged cluster.\<close>

theorem syncHandler_converged_twice_witness:
  "SplitMetaNamespaceKey ''default/job'' = Inr (''default'', ''job'')
 \<and> inferenceJobsLister
       (exampleController (Inr (exampleDeployment (exampleOwner ''uid-1'') (Some 3))))
       ''default'' ''job'' = Inr 0
 \<and> deref (exampleState (exampleJob ''x'' (Some 3))) 0 = Returns (exampleJob ''x'' (Some 3))
 \<and> deploymentsLister
       (exampleController (Inr (exampleDeployment (exampleOwner ''uid-1'') (Some 3))))
       ''default'' ''x'' = Inr (exampleDeployment (exampleOwner ''uid-1'') (Some 3))
 \<and> IsControlledBy (dMeta (exampleDeployment (exampleOwner ''uid-1'') (Some 3)))
       (ijMeta (exampleJob ''x'' (Some 3)))
 \<and> Replicas (ijSpec (exampleJob ''x'' (Some 3))) =
       dReplicas (dSpec (exampleDeployment (exampleOwner ''uid-1'') (Some 3)))
 \<and> filter isDeploymentsCreate
      (issued
        (snd (syncHandler exampleGroupVersion
                (exampleController (Inr (exampleDeployment (exampleOwner ''uid-1'') (Some 3))))
                ''default/job'' (exampleState (exampleJob ''x'' (Some 3)))))
        (snd (syncHandler exampleGroupVersion
                (exampleController (Inr (exampleDeployment (exampleOwner ''uid-1'') (Some 3))))
                ''default/job''
                (snd (syncHandler exampleGroupVersion
                        (exampleController
                           (Inr (exampleDeployment (exampleOwner ''uid-1'') (Some 3))))
                        ''default/job'' (exampleState (exampleJob ''x'' (Some 3))))))))
    = []
 \<and> filter isDeploymentsUpdate
      (issued
        (snd (syncHandler exampleGroupVersion
                (exampleController (Inr (exampleDeployment (exampleOwner ''uid-1'') (Some 3))))
                ''default/job'' (exampleState (exampleJob ''x'' (Some 3)))))
        (snd (syncHandler exampleGroupVersion
                (exampleController (Inr (exampleDeployment (exampleOwner ''uid-1'') (Some 3))))
                ''default/job''
                (snd (syncHandler exampleGroupVersion
                        (exampleController
                           (Inr (exampleDeployment (exampleOwner ''uid-1'') (Some 3))))
                        ''default/job'' (exampleState (exampleJob ''x'' (Some 3))))))))
    = []"
proof -
  let ?d = "exampleDeployment (exampleOwner ''uid-1'') (Some 3)"
  let ?j = "exampleJob ''x'' (Some 3)"
  note h1 = example_key
  note h2 = example_lister [where answer = "Inr ?d"]
  note h3 = example_deref [where j = ?j]
  note h4 = example_name [where r = "Some 3"]
  note h5 = example_deploymentsLister [where answer = "Inr ?d" and r = "Some 3"]
  note h6 = example_controlled [where r' = "Some 3" and n = "''x''" and r = "Some 3"]
  note h7 = example_converged [where n = "''x''" and refs = "exampleOwner ''uid-1''"]
  have n: "Namespace (ijMeta ?j) = ''default''" "DeploymentName (ijSpec ?j) = ''x''"
      "Replicas (ijSpec ?j) = dReplicas (dSpec ?d)"
    by (simp_all add: exampleDeployment_def exampleJob_def zeroObjectMeta_def)
  from syncHandler_converged_twice [OF h1 h2 h3 h4 h5 h6 h7 refl refl,
      where gv = exampleGroupVersion]
    h1 h2 h3 h5 h6 n
  show ?thesis by simp
qed

section \<open>Conflict detection\<close>

text \<open>
  C2. When the InferenceJob's \<open>DeploymentName\<close> names a Deployment of the cache that
  the InferenceJob does not control (the Deployment has no controller owner reference,
  or one with another UID: \<open>not_IsControlledBy_iff\<close>), one invocation of \<open>syncHandler\<close>
  returns a non-nil error, and the only call it issues is one event of type Warning on
  the InferenceJob: no Deployment is created or updated and no InferenceJob is updated.
\<close>

theorem syncHandler_conflict:
  assumes "SplitMetaNamespaceKey key = Inr (namespace, name)"
    and "inferenceJobsLister c namespace name = Inr p"
    and "deref s p = Returns ij"
    and "DeploymentName (ijSpec ij) \<noteq> []"
    and "deploymentsLister c (Namespace (ijMeta ij)) (DeploymentName (ijSpec ij)) = Inr d"
    and "\<not> IsControlledBy (dMeta d) (ijMeta ij)"
  shows "fst (syncHandler gv c key s) =
           Returns (Some (Errorf (MessageResourceExists (Name (dMeta d)))))
       \<and> issued s (snd (syncHandler gv c key s)) =
           [RecorderEvent p EventTypeWarning ErrResourceExists
              (MessageResourceExists (Name (dMeta d)))]
       \<and> filter isWrite (issued s (snd (syncHandler gv c key s))) = []"
  using assms
  by (simp add: syncHandler_def reconcileDeployment_def getOrCreateDeployment_def isWrite_def)

text \<open>The theorem of C2 at a Deployment \<open>x\<close> without owner references.\<close>

theorem syncHandler_conflict_witness:
  "SplitMetaNamespaceKey ''default/job'' = Inr (''default'', ''job'')
 \<and> inferenceJobsLister (exampleController (Inr (exampleDeployment [] (Some 1))))
       ''default'' ''job'' = Inr 0
 \<and> deref (exampleState (exampleJob ''x'' (Some 3))) 0 = Returns (exampleJob ''x'' (Some 3))
 \<and> deploymentsLister (exampleController (Inr (exampleDeployment [] (Some 1))))
       ''default'' ''x'' = Inr (exampleDeployment [] (Some 1))
 \<and> \<not> IsControlledBy (dMeta (exampleDeployment [] (Some 1)))
         (ijMeta (exampleJob ''x'' (Some 3)))
 \<and> fst (syncHandler exampleGroupVersion
           (exampleController (Inr (exampleDeployment [] (Some 1)))) ''default/job''
           (exampleState (exampleJob ''x'' (Some 3)))) =
      Returns (Some (Errorf (MessageResourceExists ''x'')))
 \<and> issued (exampleState (exampleJob ''x'' (Some 3)))
      (snd (syncHandler exampleGroupVersion
              (exampleController (Inr (exampleDeployment [] (Some 1)))) ''default/job''
              (exampleState (exampleJob ''x'' (Some 3))))) =
      [RecorderEvent 0 EventTypeWarning ErrResourceExists (MessageResourceExists ''x'')]"
proof -
  let ?d = "exampleDeployment [] (Some 1)"
  let ?j = "exampleJob ''x'' (Some 3)"
  note h1 = example_key
  note h2 = example_lister [where answer = "Inr ?d"]
  note h3 = example_deref [where j = ?j]
  note h4 = example_name [where r = "Some 3"]
  note h5 = example_deploymentsLister [where answer = "Inr ?d" and r = "Some 3"]
  note h6 = example_not_controlled [where r' = "Some 1" and n = "''x''" and r = "Some 3"]
  have n: "Name (dMeta ?d) = ''x''" "Namespace (ijMeta ?j) = ''default''"
      "DeploymentName (ijSpec ?j) = ''x''"
    by (simp_all add: exampleDeployment_def exampleJob_def zeroObjectMeta_def)
  from syncHandler_conflict [OF h1 h2 h3 h4 h5 h6, where gv = exampleGroupVersion]
    h1 h2 h3 h5 h6 n
  show ?thesis by simp
qed

section \<open>Convergence of the replicas\<close>

text \<open>
  Where the Deployment's replicas pointer is set: when the InferenceJob has \<open>Replicas\<close>
  set to \<open>R\<close> and its \<open>DeploymentName\<close> names a Deployment of the cache that it
  controls and whose replicas are some \<open>r\<close> other than \<open>R\<close>, one invocation of
  \<open>syncHandler\<close> issues exactly one Deployment update call, whatever the clients
  answer; the Deployment sent is the one \<open>newDeployment\<close> builds, its replicas are
  \<open>R\<close>, and no Deployment is created.
\<close>

lemma replicas_update_when_set:
  assumes "SplitMetaNamespaceKey key = Inr (namespace, name)"
    and "inferenceJobsLister c namespace name = Inr p"
    and "deref s p = Returns ij"
    and "DeploymentName (ijSpec ij) \<noteq> []"
    and "deploymentsLister c (Namespace (ijMeta ij)) (DeploymentName (ijSpec ij)) = Inr d"
    and "IsControlledBy (dMeta d) (ijMeta ij)"
    and "Replicas (ijSpec ij) = Some R"
    and "dReplicas (dSpec d) = Some r"
    and "r \<noteq> R"
  shows "\<exists>d'. newDeployment gv ij = Returns d'
       \<and> filter isDeploymentsUpdate (issued s (snd (syncHandler gv c key s))) =
           [DeploymentsUpdate (Namespace (ijMeta ij)) d']
       \<and> dReplicas (dSpec d') = Some R
       \<and> Name (dMeta d') = DeploymentName (ijSpec ij)
       \<and> filter isDeploymentsCreate (issued s (snd (syncHandler gv c key s))) = []"
proof -
  from newDeployment_Returns [of gv ij]
  obtain d' where d': "newDeployment gv ij = Returns d'"
      "dReplicas (dSpec d') = Replicas (ijSpec ij)" "Name (dMeta d') = DeploymentName (ijSpec ij)"
    by blast
  note rec = reconcileDeployment_update [OF assms(5-9) d'(1), where p = p and s = s]
  from syncHandler_after_reconcile [OF assms(1-4) rec]
  obtain ys where ys: "calls (snd (syncHandler gv c key s)) =
        calls (issue (DeploymentsUpdate (Namespace (ijMeta ij)) d') s) @ ys"
      "filter isDeploymentsCreate ys = []" "filter isDeploymentsUpdate ys = []"
    by blast
  then have "issued s (snd (syncHandler gv c key s)) =
      DeploymentsUpdate (Namespace (ijMeta ij)) d' # ys"
    by (simp add: issued_def)
  with ys d' assms(7) show ?thesis by simp
qed

text \<open>The same at a Deployment with 1 replica and an InferenceJob that asks for 3.\<close>

lemma replicas_update_when_set_example:
  "SplitMetaNamespaceKey ''default/job'' = Inr (''default'', ''job'')
 \<and> inferenceJobsLister
       (exampleController (Inr (exampleDeployment (exampleOwner ''uid-1'') (Some 1))))
       ''default'' ''job'' = Inr 0
 \<and> deref (exampleState (exampleJob ''x'' (Some 3))) 0 = Returns (exampleJob ''x'' (Some 3))
 \<and> deploymentsLister
       (exampleController (Inr (exampleDeployment (exampleOwner ''uid-1'') (Some 1))))
       ''default'' ''x'' = Inr (exampleDeployment (exampleOwner ''uid-1'') (Some 1))
 \<and> IsControlledBy (dMeta (exampleDeployment (exampleOwner ''uid-1'') (Some 1)))
       (ijMeta (exampleJob ''x'' (Some 3)))
 \<and> Replicas (ijSpec (exampleJob ''x'' (Some 3))) = Some 3
 \<and> dReplicas (dSpec (exampleDeployment (exampleOwner ''uid-1'') (Some 1))) = Some 1
 \<and> (\<exists>d'. newDeployment exampleGroupVersion (exampleJob ''x'' (Some 3)) = Returns d'
       \<and> filter isDeploymentsUpdate
            (issued (exampleState (exampleJob ''x'' (Some 3)))
               (snd (syncHandler exampleGroupVersion
                       (exampleController
                          (Inr (exampleDeployment (exampleOwner ''uid-1'') (Some 1))))
                       ''default/job'' (exampleState (exampleJob ''x'' (Some 3)))))) =
            [DeploymentsUpdate ''default'' d']
       \<and> dReplicas (dSpec d') = Some 3)"
proof -
  let ?d = "exampleDeployment (exampleOwner ''uid-1'') (Some 1)"
  let ?j = "exampleJob ''x'' (Some 3)"
  note h1 = example_key
  note h2 = example_lister [where answer = "Inr ?d"]
  note h3 = example_deref [where j = ?j]
  note h4 = example_name [where r = "Some 3"]
  note h5 = example_deploymentsLister [where answer = "Inr ?d" and r = "Some 3"]
  note h6 = example_controlled [where r' = "Some 1" and n = "''x''" and r = "Some 3"]
  have h7: "Replicas (ijSpec ?j) = Some 3" by (simp add: exampleJob_def)
  have h8: "dReplicas (dSpec ?d) = Some 1" by (simp add: exampleDeployment_def)
  have h9: "(1 :: 32 word) \<noteq> 3" by simp
  have n: "Namespace (ijMeta ?j) = ''default''" "DeploymentName (ijSpec ?j) = ''x''"
    by (simp_all add: exampleJob_def zeroObjectMeta_def)
  from replicas_update_when_set [OF h1 h2 h3 h4 h5 h6 h7 h8 h9,
      where gv = exampleGroupVersion]
    h1 h2 h3 h5 h6 h7 h8 n
  show ?thesis by auto
qed


section \<open>Creation\<close>

text \<open>
  C4. When the InferenceJob has a non-empty \<open>DeploymentName\<close> \<open>x\<close> and the Deployment
  lister answers NotFound for \<open>x\<close> in the InferenceJob's namespace, one invocation of
  \<open>syncHandler\<close> issues exactly one Deployment create call, whatever the clients
  answer; the Deployment sent is named \<open>x\<close>, is in the InferenceJob's namespace, and its
  controller owner reference carries the InferenceJob's UID and name and the kind
  \<open>InferenceJob\<close>, so that the InferenceJob controls it.
\<close>

theorem syncHandler_creates:
  assumes "SplitMetaNamespaceKey key = Inr (namespace, name)"
    and "inferenceJobsLister c namespace name = Inr p"
    and "deref s p = Returns ij"
    and "DeploymentName (ijSpec ij) = x"
    and "x \<noteq> []"
    and "deploymentsLister c (Namespace (ijMeta ij)) x = Inl err"
    and "IsNotFound err"
  shows "\<exists>d. filter isDeploymentsCreate (issued s (snd (syncHandler gv c key s))) =
             [DeploymentsCreate (Namespace (ijMeta ij)) d]
       \<and> newDeployment gv ij = Returns d
       \<and> Name (dMeta d) = x
       \<and> Namespace (dMeta d) = Namespace (ijMeta ij)
       \<and> GetControllerOf (dMeta d) = Some (NewControllerRef (ijMeta ij) gv ''InferenceJob'')
       \<and> refUID (NewControllerRef (ijMeta ij) gv ''InferenceJob'') = UID (ijMeta ij)
       \<and> refName (NewControllerRef (ijMeta ij) gv ''InferenceJob'') = Name (ijMeta ij)
       \<and> refKind (NewControllerRef (ijMeta ij) gv ''InferenceJob'') = ''InferenceJob''
       \<and> IsControlledBy (dMeta d) (ijMeta ij)"
proof -
  from newDeployment_Returns [of gv ij]
  obtain d where d: "newDeployment gv ij = Returns d"
      "Name (dMeta d) = DeploymentName (ijSpec ij)"
      "Namespace (dMeta d) = Namespace (ijMeta ij)"
      "OwnerReferences (dMeta d) = [NewControllerRef (ijMeta ij) gv ''InferenceJob'']"
    by blast
  obtain r s1 where rec: "reconcileDeployment gv c p ij s = (r, s1)"
    by (cases "reconcileDeployment gv c p ij s")
  from assms(4,6) have nf:
    "deploymentsLister c (Namespace (ijMeta ij)) (DeploymentName (ijSpec ij)) = Inl err"
    by simp
  from reconcileDeployment_create [OF nf assms(7) d(1) rec]
  obtain xs where xs: "calls s1 = calls s @ DeploymentsCreate (Namespace (ijMeta ij)) d # xs"
      "filter isDeploymentsCreate xs = []"
    by blast
  from assms(4,5) have ne: "DeploymentName (ijSpec ij) \<noteq> []" by simp
  from syncHandler_after_reconcile [OF assms(1-3) ne rec]
  obtain ys where ys: "calls (snd (syncHandler gv c key s)) = calls s1 @ ys"
      "filter isDeploymentsCreate ys = []"
    by blast
  from xs ys have "filter isDeploymentsCreate (issued s (snd (syncHandler gv c key s))) =
      [DeploymentsCreate (Namespace (ijMeta ij)) d]"
    by (simp add: issued_def)
  with d assms(4) show ?thesis
    by (simp add: GetControllerOf_def IsControlledBy_def NewControllerRef_def)
qed

text \<open>The theorem of C4 at a cluster without the Deployment \<open>x\<close>.\<close>

theorem syncHandler_creates_witness:
  "SplitMetaNamespaceKey ''default/job'' = Inr (''default'', ''job'')
 \<and> inferenceJobsLister (exampleController (Inl (NotFound ''not found'')))
       ''default'' ''job'' = Inr 0
 \<and> deref (exampleState (exampleJob ''x'' (Some 3))) 0 = Returns (exampleJob ''x'' (Some 3))
 \<and> DeploymentName (ijSpec (exampleJob ''x'' (Some 3))) = ''x''
 \<and> deploymentsLister (exampleController (Inl (NotFound ''not found'')))
       ''default'' ''x'' = Inl (NotFound ''not found'')
 \<and> IsNotFound (NotFound ''not found'')
 \<and> (\<exists>d. filter isDeploymentsCreate
            (issued (exampleState (exampleJob ''x'' (Some 3)))
               (snd (syncHandler exampleGroupVersion
                       (exampleController (Inl (NotFound ''not found'')))
                       ''default/job'' (exampleState (exampleJob ''x'' (Some 3)))))) =
            [DeploymentsCreate ''default'' d]
       \<and> Name (dMeta d) = ''x''
       \<and> Namespace (dMeta d) = ''default''
       \<and> IsControlledBy (dMeta d) (ijMeta (exampleJob ''x'' (Some 3))))"
proof -
  let ?j = "exampleJob ''x'' (Some 3)"
  note h1 = example_key
  note h2 = example_lister [where answer = "Inl (NotFound ''not found'')"]
  note h3 = example_deref [where j = ?j]
  have h4: "DeploymentName (ijSpec ?j) = ''x''" by (simp add: exampleJob_def)
  have h5: "''x'' \<noteq> []" by simp
  have n: "Namespace (ijMeta ?j) = ''default''"
    by (simp add: exampleJob_def zeroObjectMeta_def)
  have h6: "deploymentsLister (exampleController (Inl (NotFound ''not found'')))
      (Namespace (ijMeta ?j)) ''x'' = Inl (NotFound ''not found'')"
    by (simp add: exampleController_def n)
  have h7: "IsNotFound (NotFound ''not found'')" by simp
  from syncHandler_creates [OF h1 h2 h3 h4 h5 h6 h7, where gv = exampleGroupVersion]
    h1 h2 h3 h4 h6 h7 n
  show ?thesis by auto
qed

section \<open>The status write\<close>

text \<open>
  C5. On a sync that reaches the status write, that is, when the reconciliation of the
  Deployment succeeds with the Deployment \<open>deployment\<close> (the one of the cache, or the
  one a create or update call answered), \<open>syncHandler\<close> issues exactly one
  InferenceJob update call. The
  object sent is the cached InferenceJob with only \<open>AvailableReplicas\<close> of its status
  replaced, by the \<open>AvailableReplicas\<close> of \<open>deployment\<close>: its spec and its metadata
  are those of the cached object. \<open>syncHandler\<close> returns what the update call answers.
  Afterwards the pointer of the cache still holds the same object, as does every address
  that held an object before: the write went to a copy.
\<close>

theorem syncHandler_status_write:
  assumes "SplitMetaNamespaceKey key = Inr (namespace, name)"
    and "inferenceJobsLister c namespace name = Inr p"
    and "deref s p = Returns ij"
    and "DeploymentName (ijSpec ij) \<noteq> []"
    and "reconcileDeployment gv c p ij s = (Returns (Inr deployment), s1)"
  shows "\<exists>sent. filter isInferenceJobsUpdate (issued s (snd (syncHandler gv c key s))) =
             [InferenceJobsUpdate (Namespace (ijMeta ij)) sent]
       \<and> sent = ij\<lparr>ijStatus := (ijStatus ij)
                     \<lparr>AvailableReplicas := dAvailableReplicas (dStatus deployment)\<rparr>\<rparr>
       \<and> ijSpec sent = ijSpec ij
       \<and> ijMeta sent = ijMeta ij
       \<and> fst (syncHandler gv c key s) =
           Returns (inferenceJobsUpdate c (Namespace (ijMeta ij)) sent)
       \<and> deref (snd (syncHandler gv c key s)) p = Returns ij
       \<and> take (length (heap s)) (heap (snd (syncHandler gv c key s))) = heap s"
proof -
  from reconcileDeployment_frame [OF assms(5)]
  obtain xs where xs: "heap s1 = heap s" "calls s1 = calls s @ xs"
      "filter isInferenceJobsUpdate xs = []"
    by blast
  from assms(3) xs(1) have d1: "deref s1 p = Returns ij"
    by (simp add: deref_Returns_iff)
  from assms(3) have lt: "p < length (heap s)" "heap s ! p = ij"
    by (simp_all add: deref_Returns_iff)
  let ?sent = "ij\<lparr>ijStatus := (ijStatus ij)
                     \<lparr>AvailableReplicas := dAvailableReplicas (dStatus deployment)\<rparr>\<rparr>"
  let ?s2 = "issue (InferenceJobsUpdate (Namespace (ijMeta ij)) ?sent)
               (s1\<lparr>heap := heap s1 @ [?sent]\<rparr>)"
  have run: "syncHandler gv c key s =
      (case inferenceJobsUpdate c (Namespace (ijMeta ij)) ?sent of
         None \<Rightarrow> (Returns None,
                   issue (RecorderEvent p EventTypeNormal SuccessSynced MessageResourceSynced) ?s2)
       | Some err \<Rightarrow> (Returns (Some err), ?s2))"
    using assms(1-5)
    by (simp add: syncHandler_def updateInferenceJobStatus_result [OF d1] split: option.splits)
  have c2: "calls ?s2 = calls s @ xs @ [InferenceJobsUpdate (Namespace (ijMeta ij)) ?sent]"
    using xs(2) by simp
  have h2: "heap ?s2 = heap s @ [?sent]"
    using xs(1) by simp
  show ?thesis
  proof (cases "inferenceJobsUpdate c (Namespace (ijMeta ij)) ?sent")
    case None
    with run c2 h2 xs(3) lt show ?thesis
      by (simp add: issued_def deref_Returns_iff nth_append)
  next
    case (Some err)
    with run c2 h2 xs(3) lt show ?thesis
      by (simp add: issued_def deref_Returns_iff nth_append)
  qed
qed

text \<open>The theorem of C5 at the concrete converged cluster, where the Deployment has 2 available replicas.\<close>

theorem syncHandler_status_write_witness:
  "SplitMetaNamespaceKey ''default/job'' = Inr (''default'', ''job'')
 \<and> inferenceJobsLister
       (exampleController (Inr (exampleDeployment (exampleOwner ''uid-1'') (Some 3))))
       ''default'' ''job'' = Inr 0
 \<and> deref (exampleState (exampleJob ''x'' (Some 3))) 0 = Returns (exampleJob ''x'' (Some 3))
 \<and> reconcileDeployment exampleGroupVersion
       (exampleController (Inr (exampleDeployment (exampleOwner ''uid-1'') (Some 3)))) 0
       (exampleJob ''x'' (Some 3)) (exampleState (exampleJob ''x'' (Some 3))) =
     (Returns (Inr (exampleDeployment (exampleOwner ''uid-1'') (Some 3))),
      exampleState (exampleJob ''x'' (Some 3)))
 \<and> filter isInferenceJobsUpdate
      (issued (exampleState (exampleJob ''x'' (Some 3)))
         (snd (syncHandler exampleGroupVersion
                 (exampleController
                    (Inr (exampleDeployment (exampleOwner ''uid-1'') (Some 3))))
                 ''default/job'' (exampleState (exampleJob ''x'' (Some 3)))))) =
      [InferenceJobsUpdate ''default''
         ((exampleJob ''x'' (Some 3))\<lparr>ijStatus := \<lparr>AvailableReplicas = 2\<rparr>\<rparr>)]
 \<and> deref (snd (syncHandler exampleGroupVersion
                 (exampleController
                    (Inr (exampleDeployment (exampleOwner ''uid-1'') (Some 3))))
                 ''default/job'' (exampleState (exampleJob ''x'' (Some 3))))) 0 =
      Returns (exampleJob ''x'' (Some 3))"
proof -
  let ?d = "exampleDeployment (exampleOwner ''uid-1'') (Some 3)"
  let ?j = "exampleJob ''x'' (Some 3)"
  note h1 = example_key
  note h2 = example_lister [where answer = "Inr ?d"]
  note h3 = example_deref [where j = ?j]
  note h4 = example_name [where r = "Some 3"]
  note h5 = reconcileDeployment_converged [OF
      example_deploymentsLister [where answer = "Inr ?d" and r = "Some 3"]
      example_controlled [where r' = "Some 3" and n = "''x''" and r = "Some 3"]
      example_converged [where n = "''x''" and refs = "exampleOwner ''uid-1''"],
      where gv = exampleGroupVersion and p = 0 and s = "exampleState ?j"]
  have n: "Namespace (ijMeta ?j) = ''default''"
      "(ijStatus ?j)\<lparr>AvailableReplicas := dAvailableReplicas (dStatus ?d)\<rparr> =
         \<lparr>AvailableReplicas = 2\<rparr>"
    by (simp_all add: exampleJob_def exampleDeployment_def zeroObjectMeta_def)
  from syncHandler_status_write [OF h1 h2 h3 h4 h5] h1 h2 h3 h5 n
  show ?thesis by auto
qed

section \<open>The nil replicas of a Deployment\<close>

text \<open>
  C6. Only the InferenceJob's \<open>Replicas\<close> pointer is tested against nil. When the
  Deployment of the cache is controlled by the InferenceJob and its replicas pointer is
  nil, \<open>syncHandler\<close> panics, having issued no call, as soon as the InferenceJob's
  \<open>Replicas\<close> is not nil; with a nil \<open>Replicas\<close> it does not panic.
\<close>

theorem syncHandler_nil_replicas:
  assumes "SplitMetaNamespaceKey key = Inr (namespace, name)"
    and "inferenceJobsLister c namespace name = Inr p"
    and "deref s p = Returns ij"
    and "DeploymentName (ijSpec ij) \<noteq> []"
    and "deploymentsLister c (Namespace (ijMeta ij)) (DeploymentName (ijSpec ij)) = Inr d"
    and "IsControlledBy (dMeta d) (ijMeta ij)"
    and "dReplicas (dSpec d) = None"
  shows "(Replicas (ijSpec ij) \<noteq> None \<longrightarrow> syncHandler gv c key s = (Panics, s))
       \<and> (Replicas (ijSpec ij) = None \<longrightarrow> fst (syncHandler gv c key s) \<noteq> Panics)"
  using assms
  by (auto simp add: syncHandler_def reconcileDeployment_def getOrCreateDeployment_def
      updateReplicas_def updateInferenceJobStatus_def DeepCopy_def assignAvailableReplicas_def
      deref_def split: option.splits if_splits)

text \<open>
  The theorem of C6 at an input that reaches the panic, and at one with a nil
  \<open>Replicas\<close> that does not.
\<close>

theorem syncHandler_nil_replicas_witness:
  "SplitMetaNamespaceKey ''default/job'' = Inr (''default'', ''job'')
 \<and> inferenceJobsLister
       (exampleController (Inr (exampleDeployment (exampleOwner ''uid-1'') None)))
       ''default'' ''job'' = Inr 0
 \<and> deref (exampleState (exampleJob ''x'' (Some 3))) 0 = Returns (exampleJob ''x'' (Some 3))
 \<and> deploymentsLister
       (exampleController (Inr (exampleDeployment (exampleOwner ''uid-1'') None)))
       ''default'' ''x'' = Inr (exampleDeployment (exampleOwner ''uid-1'') None)
 \<and> IsControlledBy (dMeta (exampleDeployment (exampleOwner ''uid-1'') None))
       (ijMeta (exampleJob ''x'' (Some 3)))
 \<and> dReplicas (dSpec (exampleDeployment (exampleOwner ''uid-1'') None)) = None
 \<and> Replicas (ijSpec (exampleJob ''x'' (Some 3))) = Some 3
 \<and> syncHandler exampleGroupVersion
      (exampleController (Inr (exampleDeployment (exampleOwner ''uid-1'') None)))
      ''default/job'' (exampleState (exampleJob ''x'' (Some 3))) =
      (Panics, exampleState (exampleJob ''x'' (Some 3)))
 \<and> Replicas (ijSpec (exampleJob ''x'' None)) = None
 \<and> fst (syncHandler exampleGroupVersion
           (exampleController (Inr (exampleDeployment (exampleOwner ''uid-1'') None)))
           ''default/job'' (exampleState (exampleJob ''x'' None))) \<noteq> Panics"
proof -
  let ?d = "exampleDeployment (exampleOwner ''uid-1'') None"
  let ?j = "exampleJob ''x'' (Some 3)"
  note h1 = example_key
  note h2 = example_lister [where answer = "Inr ?d"]
  note h3 = example_deref [where j = ?j]
  note h4 = example_name [where r = "Some 3"]
  note h5 = example_deploymentsLister [where answer = "Inr ?d" and r = "Some 3"]
  note h6 = example_controlled [where r' = None and n = "''x''" and r = "Some 3"]
  have h7: "dReplicas (dSpec ?d) = None" by (simp add: exampleDeployment_def)
  have h8: "Replicas (ijSpec ?j) = Some 3" by (simp add: exampleJob_def)
  have n: "Namespace (ijMeta ?j) = ''default''" "DeploymentName (ijSpec ?j) = ''x''"
    by (simp_all add: exampleJob_def zeroObjectMeta_def)
  let ?k = "exampleJob ''x'' None"
  note k3 = example_deref [where j = ?k]
  note k4 = example_name [where r = None]
  note k5 = example_deploymentsLister [where answer = "Inr ?d" and r = None]
  note k6 = example_controlled [where r' = None and n = "''x''" and r = None]
  have k8: "Replicas (ijSpec ?k) = None" by (simp add: exampleJob_def)
  from syncHandler_nil_replicas [OF h1 h2 h3 h4 h5 h6 h7, where gv = exampleGroupVersion]
    syncHandler_nil_replicas [OF h1 h2 k3 k4 k5 k6 h7, where gv = exampleGroupVersion]
    h1 h2 h3 h5 h6 h7 h8 k8 n
  show ?thesis by simp
qed

section \<open>Keys that are dropped\<close>

text \<open>
  C7. For a key that \<open>SplitMetaNamespaceKey\<close> rejects, or whose InferenceJob the lister
  answers NotFound for, or whose InferenceJob has an empty \<open>DeploymentName\<close>,
  \<open>syncHandler\<close> returns nil and issues no write call, and the worker, given that key,
  calls \<open>Forget\<close> and then \<open>Done\<close> on the work queue and nothing else: no
  \<open>AddRateLimited\<close>.
\<close>

theorem syncHandler_drops:
  assumes "(\<exists>err. SplitMetaNamespaceKey key = Inl err)
         \<or> (\<exists>namespace name err. SplitMetaNamespaceKey key = Inr (namespace, name)
               \<and> inferenceJobsLister c namespace name = Inl err \<and> IsNotFound err)
         \<or> (\<exists>namespace name p ij. SplitMetaNamespaceKey key = Inr (namespace, name)
               \<and> inferenceJobsLister c namespace name = Inr p \<and> deref s p = Returns ij
               \<and> DeploymentName (ijSpec ij) = [])"
  shows "fst (syncHandler gv c key s) = Returns None
       \<and> filter isWrite (issued s (snd (syncHandler gv c key s))) = []
       \<and> fst (processNextWorkItem gv c (StringItem key, False) s) = Returns True
       \<and> filter isWorkqueue (issued s (snd (processNextWorkItem gv c (StringItem key, False) s))) =
           [WorkqueueForget (StringItem key), WorkqueueDone (StringItem key)]"
  using assms
  by (auto simp add: syncHandler_def processNextWorkItem_def processItem_def isWrite_def
      issued_def)

text \<open>The theorem of C7 at one key of each of the three kinds.\<close>

theorem syncHandler_drops_witness:
  "(\<exists>err. SplitMetaNamespaceKey ''a/b/c'' = Inl err)
 \<and> fst (syncHandler exampleGroupVersion (exampleController (Inl (NotFound ''not found'')))
           ''a/b/c'' (exampleState (exampleJob ''x'' None))) = Returns None
 \<and> filter isWorkqueue
      (issued (exampleState (exampleJob ''x'' None))
         (snd (processNextWorkItem exampleGroupVersion
                 (exampleController (Inl (NotFound ''not found'')))
                 (StringItem ''a/b/c'', False) (exampleState (exampleJob ''x'' None))))) =
      [WorkqueueForget (StringItem ''a/b/c''), WorkqueueDone (StringItem ''a/b/c'')]
 \<and> SplitMetaNamespaceKey ''default/gone'' = Inr (''default'', ''gone'')
 \<and> inferenceJobsLister (exampleController (Inl (NotFound ''not found'')))
       ''default'' ''gone'' = Inl (NotFound ''not found'')
 \<and> fst (syncHandler exampleGroupVersion (exampleController (Inl (NotFound ''not found'')))
           ''default/gone'' (exampleState (exampleJob ''x'' None))) = Returns None
 \<and> filter isWrite
      (issued (exampleState (exampleJob ''x'' None))
         (snd (syncHandler exampleGroupVersion
                 (exampleController (Inl (NotFound ''not found'')))
                 ''default/gone'' (exampleState (exampleJob ''x'' None))))) = []
 \<and> deref (exampleState (exampleJob [] None)) 0 = Returns (exampleJob [] None)
 \<and> DeploymentName (ijSpec (exampleJob [] None)) = []
 \<and> fst (syncHandler exampleGroupVersion (exampleController (Inl (NotFound ''not found'')))
           ''default/job'' (exampleState (exampleJob [] None))) = Returns None
 \<and> filter isWorkqueue
      (issued (exampleState (exampleJob [] None))
         (snd (processNextWorkItem exampleGroupVersion
                 (exampleController (Inl (NotFound ''not found'')))
                 (StringItem ''default/job'', False) (exampleState (exampleJob [] None))))) =
      [WorkqueueForget (StringItem ''default/job''), WorkqueueDone (StringItem ''default/job'')]"
proof -
  let ?c = "exampleController (Inl (NotFound ''not found''))"
  have a1: "SplitMetaNamespaceKey ''a/b/c'' = Inl (Errorf ''unexpected key format: a/b/c'')"
    by (simp add: SplitMetaNamespaceKey_def)
  have b1: "SplitMetaNamespaceKey ''default/gone'' = Inr (''default'', ''gone'')"
    by (simp add: SplitMetaNamespaceKey_def)
  have b2: "inferenceJobsLister ?c ''default'' ''gone'' = Inl (NotFound ''not found'')"
    by (simp add: exampleController_def)
  have c3: "deref (exampleState (exampleJob [] None)) 0 = Returns (exampleJob [] None)"
    by (rule example_deref)
  have c4: "DeploymentName (ijSpec (exampleJob [] None)) = []"
    by (simp add: exampleJob_def)
  have a: "(\<exists>err. SplitMetaNamespaceKey ''a/b/c'' = Inl err)
         \<or> (\<exists>namespace name err. SplitMetaNamespaceKey ''a/b/c'' = Inr (namespace, name)
               \<and> inferenceJobsLister ?c namespace name = Inl err \<and> IsNotFound err)
         \<or> (\<exists>namespace name p ij. SplitMetaNamespaceKey ''a/b/c'' = Inr (namespace, name)
               \<and> inferenceJobsLister ?c namespace name = Inr p
               \<and> deref (exampleState (exampleJob ''x'' None)) p = Returns ij
               \<and> DeploymentName (ijSpec ij) = [])"
    using a1 by simp
  have b: "(\<exists>err. SplitMetaNamespaceKey ''default/gone'' = Inl err)
         \<or> (\<exists>namespace name err. SplitMetaNamespaceKey ''default/gone'' = Inr (namespace, name)
               \<and> inferenceJobsLister ?c namespace name = Inl err \<and> IsNotFound err)
         \<or> (\<exists>namespace name p ij. SplitMetaNamespaceKey ''default/gone'' = Inr (namespace, name)
               \<and> inferenceJobsLister ?c namespace name = Inr p
               \<and> deref (exampleState (exampleJob ''x'' None)) p = Returns ij
               \<and> DeploymentName (ijSpec ij) = [])"
    using b1 b2 by simp
  have c: "(\<exists>err. SplitMetaNamespaceKey ''default/job'' = Inl err)
         \<or> (\<exists>namespace name err. SplitMetaNamespaceKey ''default/job'' = Inr (namespace, name)
               \<and> inferenceJobsLister ?c namespace name = Inl err \<and> IsNotFound err)
         \<or> (\<exists>namespace name p ij. SplitMetaNamespaceKey ''default/job'' = Inr (namespace, name)
               \<and> inferenceJobsLister ?c namespace name = Inr p
               \<and> deref (exampleState (exampleJob [] None)) p = Returns ij
               \<and> DeploymentName (ijSpec ij) = [])"
    using example_key example_lister [where answer = "Inl (NotFound ''not found'')"] c3 c4
    by simp
  from syncHandler_drops [OF a, where gv = exampleGroupVersion]
    syncHandler_drops [OF b, where gv = exampleGroupVersion]
    syncHandler_drops [OF c, where gv = exampleGroupVersion]
    a1 b1 b2 c3 c4
  show ?thesis by simp
qed

section \<open>The owner resolver\<close>

text \<open>
  C9. Let \<open>handleObject\<close> be given an object with metadata, or a tombstone of one. If
  the object has no controller owner reference, or the reference's kind is not
  \<open>InferenceJob\<close>, or the InferenceJob lister answers an error for the reference's name
  in the object's namespace, then \<open>handleObject\<close> returns and leaves the state as it
  was: nothing is enqueued and no error is reported. If the lister answers an
  InferenceJob, \<open>handleObject\<close> adds its key to the work queue and does nothing else:
  namespace, \<open>/\<close> and name, or the name alone for an empty namespace.
\<close>

theorem handleObject_resolves:
  assumes "obj = object \<or> (\<exists>k. obj = DeletedFinalStateUnknown k object)"
    and "isMetaObject object"
    and "GetObjectMeta s object = Returns m"
  shows "(GetControllerOf m = None \<longrightarrow> handleObject c obj s = (Returns (), s))
       \<and> (GetControllerOf m = Some ownerRef \<and> refKind ownerRef \<noteq> ''InferenceJob'' \<longrightarrow>
            handleObject c obj s = (Returns (), s))
       \<and> (GetControllerOf m = Some ownerRef \<and> refKind ownerRef = ''InferenceJob''
            \<and> inferenceJobsLister c (Namespace m) (refName ownerRef) = Inl err \<longrightarrow>
            handleObject c obj s = (Returns (), s))
       \<and> (GetControllerOf m = Some ownerRef \<and> refKind ownerRef = ''InferenceJob''
            \<and> inferenceJobsLister c (Namespace m) (refName ownerRef) = Inr p
            \<and> deref s p = Returns ij \<longrightarrow>
            handleObject c obj s =
              (Returns (),
               issue (WorkqueueAdd
                        (if Namespace (ijMeta ij) = [] then Name (ijMeta ij)
                         else Namespace (ijMeta ij) @ ''/'' @ Name (ijMeta ij))) s))"
  using assms
  by (auto simp add: handleObject_def resolveOwner_def enqueueInferenceJob_def
      MetaNamespaceKeyFunc_def)

text \<open>
  The theorem of C9 at a Deployment owned by the cached InferenceJob, at the tombstone
  of a Deployment without owner, at a Deployment owned by a ReplicaSet, and at a
  Deployment owned by an InferenceJob that the cache does not hold.
\<close>

theorem handleObject_resolves_witness:
  "isMetaObject (DeploymentObj (exampleDeployment (exampleOwner ''uid-1'') (Some 3)))
 \<and> GetObjectMeta (exampleState (exampleJob ''x'' (Some 3)))
      (DeploymentObj (exampleDeployment (exampleOwner ''uid-1'') (Some 3))) =
     Returns (dMeta (exampleDeployment (exampleOwner ''uid-1'') (Some 3)))
 \<and> GetControllerOf (dMeta (exampleDeployment (exampleOwner ''uid-1'') (Some 3))) =
     Some (hd (exampleOwner ''uid-1''))
 \<and> refKind (hd (exampleOwner ''uid-1'')) = ''InferenceJob''
 \<and> inferenceJobsLister
      (exampleController (Inr (exampleDeployment (exampleOwner ''uid-1'') (Some 3))))
      ''default'' ''job'' = Inr 0
 \<and> deref (exampleState (exampleJob ''x'' (Some 3))) 0 = Returns (exampleJob ''x'' (Some 3))
 \<and> handleObject
      (exampleController (Inr (exampleDeployment (exampleOwner ''uid-1'') (Some 3))))
      (DeploymentObj (exampleDeployment (exampleOwner ''uid-1'') (Some 3)))
      (exampleState (exampleJob ''x'' (Some 3))) =
     (Returns (), issue (WorkqueueAdd ''default/job'') (exampleState (exampleJob ''x'' (Some 3))))
 \<and> GetControllerOf (dMeta (exampleDeployment [] (Some 3))) = None
 \<and> handleObject
      (exampleController (Inr (exampleDeployment (exampleOwner ''uid-1'') (Some 3))))
      (DeletedFinalStateUnknown ''default/x'' (DeploymentObj (exampleDeployment [] (Some 3))))
      (exampleState (exampleJob ''x'' (Some 3))) =
     (Returns (), exampleState (exampleJob ''x'' (Some 3)))
 \<and> GetControllerOf
      (dMeta (exampleDeployment (exampleOwnerOf ''ReplicaSet'' ''job'') (Some 3))) =
     Some (hd (exampleOwnerOf ''ReplicaSet'' ''job''))
 \<and> refKind (hd (exampleOwnerOf ''ReplicaSet'' ''job'')) \<noteq> ''InferenceJob''
 \<and> handleObject
      (exampleController (Inr (exampleDeployment (exampleOwner ''uid-1'') (Some 3))))
      (DeploymentObj (exampleDeployment (exampleOwnerOf ''ReplicaSet'' ''job'') (Some 3)))
      (exampleState (exampleJob ''x'' (Some 3))) =
     (Returns (), exampleState (exampleJob ''x'' (Some 3)))
 \<and> GetControllerOf
      (dMeta (exampleDeployment (exampleOwnerOf ''InferenceJob'' ''gone'') (Some 3))) =
     Some (hd (exampleOwnerOf ''InferenceJob'' ''gone''))
 \<and> inferenceJobsLister
      (exampleController (Inr (exampleDeployment (exampleOwner ''uid-1'') (Some 3))))
      ''default'' ''gone'' = Inl (NotFound ''not found'')
 \<and> handleObject
      (exampleController (Inr (exampleDeployment (exampleOwner ''uid-1'') (Some 3))))
      (DeploymentObj (exampleDeployment (exampleOwnerOf ''InferenceJob'' ''gone'') (Some 3)))
      (exampleState (exampleJob ''x'' (Some 3))) =
     (Returns (), exampleState (exampleJob ''x'' (Some 3)))"
proof -
  let ?d = "exampleDeployment (exampleOwner ''uid-1'') (Some 3)"
  let ?u = "exampleDeployment [] (Some 3)"
  let ?j = "exampleJob ''x'' (Some 3)"
  let ?c = "exampleController (Inr ?d)"
  let ?s = "exampleState ?j"
  have a1: "DeploymentObj ?d = DeploymentObj ?d
      \<or> (\<exists>k. DeploymentObj ?d = DeletedFinalStateUnknown k (DeploymentObj ?d))"
    by simp
  have a2: "isMetaObject (DeploymentObj ?d)" by simp
  have a3: "GetObjectMeta ?s (DeploymentObj ?d) = Returns (dMeta ?d)" by simp
  have a4: "GetControllerOf (dMeta ?d) = Some (hd (exampleOwner ''uid-1''))"
    by (simp add: GetControllerOf_def exampleDeployment_def exampleOwner_def)
  have a5: "refKind (hd (exampleOwner ''uid-1'')) = ''InferenceJob''"
      "refName (hd (exampleOwner ''uid-1'')) = ''job''"
    by (simp_all add: exampleOwner_def)
  have a6: "Namespace (dMeta ?d) = ''default''"
    by (simp add: exampleDeployment_def zeroObjectMeta_def)
  note a7 = example_lister [where answer = "Inr ?d"]
  note a8 = example_deref [where j = ?j]
  have a9: "Namespace (ijMeta ?j) = ''default''" "Name (ijMeta ?j) = ''job''"
    by (simp_all add: exampleJob_def zeroObjectMeta_def)
  have b1: "DeletedFinalStateUnknown ''default/x'' (DeploymentObj ?u) = DeploymentObj ?u
      \<or> (\<exists>k. DeletedFinalStateUnknown ''default/x'' (DeploymentObj ?u) =
               DeletedFinalStateUnknown k (DeploymentObj ?u))"
    by simp
  have b2: "isMetaObject (DeploymentObj ?u)" by simp
  have b3: "GetObjectMeta ?s (DeploymentObj ?u) = Returns (dMeta ?u)" by simp
  have b4: "GetControllerOf (dMeta ?u) = None"
    by (simp add: GetControllerOf_def exampleDeployment_def)
  from handleObject_resolves [OF a1 a2 a3, where c = ?c
      and ownerRef = "hd (exampleOwner ''uid-1'')" and p = 0 and ij = ?j]
    a4 a5 a6 a7 a8 a9
  have r1: "handleObject ?c (DeploymentObj ?d) ?s =
      (Returns (), issue (WorkqueueAdd ''default/job'') ?s)"
    by simp
  from handleObject_resolves [OF b1 b2 b3, where c = ?c] b4
  have r2: "handleObject ?c (DeletedFinalStateUnknown ''default/x'' (DeploymentObj ?u)) ?s =
      (Returns (), ?s)"
    by simp
  let ?k = "exampleDeployment (exampleOwnerOf ''ReplicaSet'' ''job'') (Some 3)"
  have k1: "DeploymentObj ?k = DeploymentObj ?k
      \<or> (\<exists>k. DeploymentObj ?k = DeletedFinalStateUnknown k (DeploymentObj ?k))"
    by simp
  have k2: "isMetaObject (DeploymentObj ?k)" by simp
  have k3: "GetObjectMeta ?s (DeploymentObj ?k) = Returns (dMeta ?k)" by simp
  have k4: "GetControllerOf (dMeta ?k) = Some (hd (exampleOwnerOf ''ReplicaSet'' ''job''))"
    by (simp add: GetControllerOf_def exampleDeployment_def exampleOwnerOf_def)
  have k5: "refKind (hd (exampleOwnerOf ''ReplicaSet'' ''job'')) \<noteq> ''InferenceJob''"
    by (simp add: exampleOwnerOf_def)
  from handleObject_resolves [OF k1 k2 k3, where c = ?c
      and ownerRef = "hd (exampleOwnerOf ''ReplicaSet'' ''job'')"] k4 k5
  have r3: "handleObject ?c (DeploymentObj ?k) ?s = (Returns (), ?s)"
    by simp
  let ?g = "exampleDeployment (exampleOwnerOf ''InferenceJob'' ''gone'') (Some 3)"
  have g1: "DeploymentObj ?g = DeploymentObj ?g
      \<or> (\<exists>k. DeploymentObj ?g = DeletedFinalStateUnknown k (DeploymentObj ?g))"
    by simp
  have g2: "isMetaObject (DeploymentObj ?g)" by simp
  have g3: "GetObjectMeta ?s (DeploymentObj ?g) = Returns (dMeta ?g)" by simp
  have g4: "GetControllerOf (dMeta ?g) = Some (hd (exampleOwnerOf ''InferenceJob'' ''gone''))"
    by (simp add: GetControllerOf_def exampleDeployment_def exampleOwnerOf_def)
  have g5: "refKind (hd (exampleOwnerOf ''InferenceJob'' ''gone'')) = ''InferenceJob''"
      "refName (hd (exampleOwnerOf ''InferenceJob'' ''gone'')) = ''gone''"
    by (simp_all add: exampleOwnerOf_def)
  have g6: "Namespace (dMeta ?g) = ''default''"
    by (simp add: exampleDeployment_def zeroObjectMeta_def)
  have g7: "inferenceJobsLister ?c ''default'' ''gone'' = Inl (NotFound ''not found'')"
    by (simp add: exampleController_def)
  from handleObject_resolves [OF g1 g2 g3, where c = ?c
      and ownerRef = "hd (exampleOwnerOf ''InferenceJob'' ''gone'')"
      and err = "NotFound ''not found''"] g4 g5 g6 g7
  have r4: "handleObject ?c (DeploymentObj ?g) ?s = (Returns (), ?s)"
    by simp
  from a2 a3 a4 a5 a7 a8 b4 r1 r2 k4 k5 r3 g4 g7 r4 show ?thesis by simp
qed

section \<open>Update notifications of Deployments\<close>

text \<open>
  C10. For an update notification with the Deployments \<open>oldDepl\<close> and \<open>newDepl\<close>: if
  their \<open>ResourceVersion\<close>s are equal, the handler returns and leaves the state as it
  was (\<open>handleObject\<close> is not called, nothing is enqueued); if they differ, the handler
  does what \<open>handleObject\<close> does on the new object.
\<close>

theorem deploymentUpdateFunc_resync:
  "(ResourceVersion (dMeta newDepl) = ResourceVersion (dMeta oldDepl) \<longrightarrow>
      deploymentUpdateFunc c (DeploymentObj oldDepl) (DeploymentObj newDepl) s = (Returns (), s))
 \<and> (ResourceVersion (dMeta newDepl) \<noteq> ResourceVersion (dMeta oldDepl) \<longrightarrow>
      deploymentUpdateFunc c (DeploymentObj oldDepl) (DeploymentObj newDepl) s =
        handleObject c (DeploymentObj newDepl) s)"
  by (simp add: deploymentUpdateFunc_def)

text \<open>The theorem of C10 at a resync of version 7, and at an update from version 7 to version 8.\<close>

theorem deploymentUpdateFunc_resync_witness:
  "ResourceVersion (dMeta (exampleDeploymentVersion ''7'')) =
     ResourceVersion (dMeta (exampleDeploymentVersion ''7''))
 \<and> deploymentUpdateFunc (exampleController (Inr (exampleDeploymentVersion ''7'')))
      (DeploymentObj (exampleDeploymentVersion ''7''))
      (DeploymentObj (exampleDeploymentVersion ''7''))
      (exampleState (exampleJob ''x'' (Some 3))) =
     (Returns (), exampleState (exampleJob ''x'' (Some 3)))
 \<and> ResourceVersion (dMeta (exampleDeploymentVersion ''8'')) \<noteq>
     ResourceVersion (dMeta (exampleDeploymentVersion ''7''))
 \<and> deploymentUpdateFunc (exampleController (Inr (exampleDeploymentVersion ''8'')))
      (DeploymentObj (exampleDeploymentVersion ''7''))
      (DeploymentObj (exampleDeploymentVersion ''8''))
      (exampleState (exampleJob ''x'' (Some 3))) =
     handleObject (exampleController (Inr (exampleDeploymentVersion ''8'')))
      (DeploymentObj (exampleDeploymentVersion ''8''))
      (exampleState (exampleJob ''x'' (Some 3)))"
proof -
  have ne: "ResourceVersion (dMeta (exampleDeploymentVersion ''8'')) \<noteq>
      ResourceVersion (dMeta (exampleDeploymentVersion ''7''))"
    by (simp add: exampleDeploymentVersion_def)
  from deploymentUpdateFunc_resync [where newDepl = "exampleDeploymentVersion ''7''"
      and oldDepl = "exampleDeploymentVersion ''7''"
      and c = "exampleController (Inr (exampleDeploymentVersion ''7''))"
      and s = "exampleState (exampleJob ''x'' (Some 3))"]
    deploymentUpdateFunc_resync [where newDepl = "exampleDeploymentVersion ''8''"
      and oldDepl = "exampleDeploymentVersion ''7''"
      and c = "exampleController (Inr (exampleDeploymentVersion ''8''))"
      and s = "exampleState (exampleJob ''x'' (Some 3))"]
    ne
  show ?thesis by simp
qed

end
